theory Spec2Isabelle
  imports Main "HOL-Library.Word"
begin

section \<open>The verification scripts of the Line Bridge Simulator\<close>

text \<open>
  The repository slice holds three Python scripts that drive a headless browser through
  the Playwright library: \<^verbatim>\<open>verify_boundary_conditions.py\<close>, \<^verbatim>\<open>verify_clusters.py\<close> and
  \<^verbatim>\<open>verify_simulation.py\<close>. Each is straight-line code over library calls, with one
  \<^verbatim>\<open>try/except/finally\<close> in \<^verbatim>\<open>verify_simulation.py\<close> and a \<^verbatim>\<open>with sync_playwright()\<close> block
  in all three.

  The library, the browser and the page under test (\<^verbatim>\<open>index.html\<close>) are not part of the
  sources. They are a parameter of the model: an environment says, for every library call
  a script can make, which page events are delivered while the call is pending and whether
  the call returns or raises. The scripts are embedded as functions from that environment
  and a run state to an outcome and a new run state; everything a script does (library
  calls, prints, handler registrations) is recorded in order in the state.
\<close>

subsection \<open>Values of the library\<close>

type_synonym bytes = "8 word list"

text \<open>
  A locator is built by \<^verbatim>\<open>page.locator(selector)\<close> or by
  \<^verbatim>\<open>page.get_by_role(role, name=...)\<close>. Building one does not talk to the page.
\<close>

datatype locator = Locator string | GetByRole string string

text \<open>
  The library calls the three scripts make, with the arguments the source passes.
  \<open>ExpectNotToHaveText\<close> carries the \<^verbatim>\<open>timeout=\<close> keyword (milliseconds) and \<open>Screenshot\<close>
  the \<^verbatim>\<open>path=\<close> and \<^verbatim>\<open>full_page=\<close> keywords; \<open>None\<close> stands for a keyword the call does
  not pass. \<open>SyncPlaywrightEnter\<close> and \<open>SyncPlaywrightExit\<close> are the two ends of the
  \<^verbatim>\<open>with sync_playwright()\<close> block.
\<close>

datatype call =
    SyncPlaywrightEnter
  | SyncPlaywrightExit
  | Launch bool
  | NewPage
  | Goto string
  | ScrollIntoViewIfNeeded locator
  | SelectOption locator string
  | Click locator
  | WaitForTimeout nat
  | ExpectToBeVisible locator
  | ExpectToHaveValue locator string
  | ExpectNotToHaveText locator string "nat option"
  | Screenshot string "bool option"
  | Close

text \<open>
  Exceptions. The library raises its own \<^verbatim>\<open>Error\<close>, its \<^verbatim>\<open>TimeoutError\<close> and, from
  \<^verbatim>\<open>expect\<close>, the built-in \<^verbatim>\<open>AssertionError\<close>; all three derive from \<^verbatim>\<open>Exception\<close>, so the
  handler \<^verbatim>\<open>except Exception as e\<close> catches each of them. \<open>str_exc\<close> is Python's \<^verbatim>\<open>str(e)\<close>.
\<close>

datatype exn_class = Error | TimeoutError | AssertionError

datatype py_exception = PyException exn_class string

fun exc_class :: "py_exception \<Rightarrow> exn_class" where
  "exc_class (PyException c m) = c"

fun str_exc :: "py_exception \<Rightarrow> string" where
  "str_exc (PyException c m) = m"

text \<open>
  What the page sends to the script while a library call is pending: a console message
  (\<^verbatim>\<open>msg.type\<close>, \<^verbatim>\<open>msg.text\<close>) or an uncaught page error (as \<^verbatim>\<open>str(exc)\<close>).
\<close>

datatype page_event = Console string string | PageError string

record response =
  emits :: "page_event list"
  raises :: "py_exception option"

text \<open>
  The environment of one run: the response to every call, \<^verbatim>\<open>os.path.abspath\<close>, and the image
  the browser hands back for a screenshot.
\<close>

record environment =
  respond :: "call \<Rightarrow> response"
  abspath :: "string \<Rightarrow> string"
  image :: bytes

subsection \<open>The run state\<close>

datatype effect = Print string | Lib call | On string

record run_state =
  effects :: "effect list"
  console_messages :: "string list"
  page_errors :: "string list"
  console_sink :: bool
  pageerror_sink :: bool
  fs :: "string \<rightharpoonup> bytes"

definition init :: "(string \<rightharpoonup> bytes) \<Rightarrow> run_state" where
  "init files = \<lparr>effects = [], console_messages = [], page_errors = [],
     console_sink = False, pageerror_sink = False, fs = files\<rparr>"

type_synonym stmt = "run_state \<Rightarrow> py_exception option \<times> run_state"

text \<open>
  The two handlers of \<^verbatim>\<open>verify_simulation.py\<close>:
  \<^verbatim>\<open>lambda msg: console_messages.append(f"[{msg.type}] {msg.text}")\<close> and
  \<^verbatim>\<open>lambda exc: page_errors.append(str(exc))\<close>. An event with no handler registered is
  dropped.
\<close>

fun deliver :: "page_event \<Rightarrow> run_state \<Rightarrow> run_state" where
  "deliver (Console ty tx) s =
     (if console_sink s
      then s\<lparr>console_messages := console_messages s @ [''['' @ ty @ ''] '' @ tx]\<rparr>
      else s)"
| "deliver (PageError d) s =
     (if pageerror_sink s then s\<lparr>page_errors := page_errors s @ [d]\<rparr> else s)"

definition dispatch :: "page_event list \<Rightarrow> run_state \<Rightarrow> run_state" where
  "dispatch evs s = fold deliver evs s"

text \<open>
  A library call: it is recorded, the events of its response are delivered in order, and
  it returns or raises. \<^verbatim>\<open>page.screenshot(path=p)\<close> that returns has saved the image at
  \<open>p\<close>; one that raises is taken to leave the file system as it was.
\<close>

definition invoke :: "environment \<Rightarrow> call \<Rightarrow> stmt" where
  "invoke env c s =
     (let r = respond env c;
          s1 = dispatch (emits r) (s\<lparr>effects := effects s @ [Lib c]\<rparr>)
      in case raises r of
           Some e \<Rightarrow> (Some e, s1)
         | None \<Rightarrow>
             (None, (case c of
                       Screenshot p full \<Rightarrow> s1\<lparr>fs := (fs s1)(p \<mapsto> image env)\<rparr>
                     | _ \<Rightarrow> s1)))"

definition print :: "string \<Rightarrow> stmt" where
  "print t s = (None, s\<lparr>effects := effects s @ [Print t]\<rparr>)"

text \<open>\<^verbatim>\<open>page.on(event, handler)\<close>: a local registration of one of the two handlers above.\<close>

definition page_on :: "string \<Rightarrow> stmt" where
  "page_on ev s =
     (None,
      (if ev = ''console'' then s\<lparr>console_sink := True\<rparr>
       else if ev = ''pageerror'' then s\<lparr>pageerror_sink := True\<rparr>
       else s)\<lparr>effects := effects s @ [On ev]\<rparr>)"

text \<open>\<^verbatim>\<open>console_messages = []\<close> and \<^verbatim>\<open>page_errors = []\<close>.\<close>

definition new_logs :: stmt where
  "new_logs s = (None, s\<lparr>console_messages := [], page_errors := []\<rparr>)"

subsection \<open>Control flow\<close>

text \<open>A sequence of statements: the first exception ends it.\<close>

fun block :: "stmt list \<Rightarrow> stmt" where
  "block [] s = (None, s)"
| "block (f # rest) s =
     (case f s of
        (Some e, s') \<Rightarrow> (Some e, s')
      | (None, s') \<Rightarrow> block rest s')"

text \<open>
  \<^verbatim>\<open>try: body except Exception as e: handler finally: final\<close>. The handler runs when the body
  raises; the final part runs on every path, and an exception of its own replaces the
  pending one.
\<close>

definition try_except_finally :: "stmt \<Rightarrow> (py_exception \<Rightarrow> stmt) \<Rightarrow> stmt \<Rightarrow> stmt" where
  "try_except_finally body handler final s =
     (let (r, s1) = (case body s of
                       (Some e, s') \<Rightarrow> handler e s'
                     | (None, s') \<Rightarrow> (None, s'))
      in case final s1 of
           (Some e', s2) \<Rightarrow> (Some e', s2)
         | (None, s2) \<Rightarrow> (r, s2))"

text \<open>
  \<^verbatim>\<open>with sync_playwright() as p: body\<close>. When entering raises, nothing else runs; otherwise
  the exit runs after the body on every path and does not suppress the body's exception.
\<close>

definition with_sync_playwright :: "environment \<Rightarrow> stmt \<Rightarrow> stmt" where
  "with_sync_playwright env body s =
     (case invoke env SyncPlaywrightEnter s of
        (Some e, s1) \<Rightarrow> (Some e, s1)
      | (None, s1) \<Rightarrow>
          (case body s1 of
             (r, s2) \<Rightarrow>
               (case invoke env SyncPlaywrightExit s2 of
                  (Some e', s3) \<Rightarrow> (Some e', s3)
                | (None, s3) \<Rightarrow> (r, s3))))"

text \<open>
  The interpreter's exit status of a script: 0 when it runs to its end, 1 when an exception
  leaves it uncaught.
\<close>

fun exit_code :: "py_exception option \<Rightarrow> nat" where
  "exit_code None = 0"
| "exit_code (Some e) = 1"

subsection \<open>\<^verbatim>\<open>verify_boundary_conditions.py\<close>\<close>

definition index_url :: "environment \<Rightarrow> string" where
  "index_url env = ''file://'' @ abspath env ''index.html''"

definition verification_png :: string where
  "verification_png = ''jules-scratch/verification/verification.png''"

definition boundary_dropdown :: locator where
  "boundary_dropdown = Locator ''#boundary-condition''"

definition run_verification_boundary_conditions :: "environment \<Rightarrow> stmt" where
  "run_verification_boundary_conditions env =
     with_sync_playwright env (block [
       invoke env (Launch True),
       invoke env NewPage,
       invoke env (Goto (index_url env)),
       invoke env (ScrollIntoViewIfNeeded boundary_dropdown),
       invoke env (SelectOption boundary_dropdown ''top-to-bottom''),
       invoke env (ExpectToHaveValue boundary_dropdown ''top-to-bottom''),
       invoke env (Screenshot verification_png None),
       invoke env Close,
       print (''Screenshot saved to '' @ verification_png)])"

subsection \<open>\<^verbatim>\<open>verify_clusters.py\<close>\<close>

definition start_button :: locator where
  "start_button = Locator ''#start-button''"

definition pause_button :: locator where
  "pause_button = Locator ''#pause-button''"

definition run_verification_clusters :: "environment \<Rightarrow> stmt" where
  "run_verification_clusters env =
     block [
       invoke env (Launch True),
       invoke env NewPage,
       invoke env (Goto (index_url env)),
       invoke env (Click start_button),
       invoke env (WaitForTimeout 3000),
       invoke env (Click pause_button),
       invoke env (Screenshot verification_png None),
       invoke env Close,
       print (''Screenshot saved to '' @ verification_png)]"

text \<open>The module's last two lines: \<^verbatim>\<open>with sync_playwright() as playwright: run_verification(playwright)\<close>.\<close>

definition verify_clusters :: "environment \<Rightarrow> stmt" where
  "verify_clusters env = with_sync_playwright env (run_verification_clusters env)"

subsection \<open>\<^verbatim>\<open>verify_simulation.py\<close>\<close>

definition simulation_png :: string where
  "simulation_png = ''jules-scratch/verification/simulation-running.png''"

definition heading :: locator where
  "heading = GetByRole ''heading'' ''Line Bridge Simulator''"

definition line_count_display :: locator where
  "line_count_display = Locator ''#line-count''"

text \<open>The five library calls of the \<^verbatim>\<open>try\<close> body, in the order of the source.\<close>

definition try_calls :: "environment \<Rightarrow> call list" where
  "try_calls env =
     [Goto (index_url env),
      ExpectToBeVisible heading,
      Click start_button,
      ExpectNotToHaveText line_count_display ''0'' (Some 5000),
      Screenshot simulation_png None]"

definition try_body :: "environment \<Rightarrow> stmt" where
  "try_body env =
     block [
       invoke env (Goto (index_url env)),
       invoke env (ExpectToBeVisible heading),
       invoke env (Click start_button),
       invoke env (ExpectNotToHaveText line_count_display ''0'' (Some 5000)),
       invoke env (Screenshot simulation_png None),
       print (''Screenshot saved to '' @ simulation_png)]"

definition error_line :: "py_exception \<Rightarrow> string" where
  "error_line e = ''\<newline>An error occurred during Playwright execution: '' @ str_exc e"

text \<open>
  One section of the \<^verbatim>\<open>finally\<close> part: the header, then every entry of the list, or the
  line that says the list is empty.
\<close>

definition section_lines :: "string \<Rightarrow> string \<Rightarrow> string list \<Rightarrow> string list" where
  "section_lines header none_captured entries =
     header # (if entries \<noteq> [] then entries else [none_captured])"

definition print_console_logs :: stmt where
  "print_console_logs s =
     block (map print (section_lines ''\<newline>--- Browser Console Logs ---''
        ''No console messages were captured.'' (console_messages s))) s"

definition print_page_errors :: stmt where
  "print_page_errors s =
     block (map print (section_lines ''\<newline>--- Browser Page Errors ---''
        ''No page errors were captured.'' (page_errors s))) s"

definition finally_part :: "environment \<Rightarrow> stmt" where
  "finally_part env = block [print_console_logs, print_page_errors, invoke env Close]"

definition run_verification_simulation :: "environment \<Rightarrow> stmt" where
  "run_verification_simulation env =
     with_sync_playwright env (block [
       invoke env (Launch True),
       invoke env NewPage,
       new_logs,
       page_on ''console'',
       page_on ''pageerror'',
       try_except_finally (try_body env) (\<lambda>e. print (error_line e)) (finally_part env)])"

subsection \<open>Reading a run\<close>

text \<open>What a run wrote to standard output, and the library calls it made, in order.\<close>

fun printed :: "effect list \<Rightarrow> string list" where
  "printed [] = []"
| "printed (Print t # es) = t # printed es"
| "printed (Lib c # es) = printed es"
| "printed (On ev # es) = printed es"

fun lib_calls :: "effect list \<Rightarrow> call list" where
  "lib_calls [] = []"
| "lib_calls (Lib c # es) = c # lib_calls es"
| "lib_calls (Print t # es) = lib_calls es"
| "lib_calls (On ev # es) = lib_calls es"

text \<open>The library calls made after both handlers are registered.\<close>

fun after_registration :: "effect list \<Rightarrow> call list" where
  "after_registration [] = []"
| "after_registration (e # es) =
     (if e = On ''pageerror'' then lib_calls es else after_registration es)"

text \<open>The locators a list of calls acts on.\<close>

fun locator_of :: "call \<Rightarrow> locator list" where
  "locator_of (ScrollIntoViewIfNeeded l) = [l]"
| "locator_of (SelectOption l v) = [l]"
| "locator_of (Click l) = [l]"
| "locator_of (ExpectToBeVisible l) = [l]"
| "locator_of (ExpectToHaveValue l v) = [l]"
| "locator_of (ExpectNotToHaveText l t ms) = [l]"
| "locator_of c = []"

definition locators_used :: "call list \<Rightarrow> locator list" where
  "locators_used cs = remdups (concat (map locator_of cs))"

fun is_expect :: "call \<Rightarrow> bool" where
  "is_expect (ExpectToBeVisible l) = True"
| "is_expect (ExpectToHaveValue l v) = True"
| "is_expect (ExpectNotToHaveText l t ms) = True"
| "is_expect c = False"

text \<open>
  The library documents \<^verbatim>\<open>full_page\<close> as false by default: a screenshot call that does not
  pass it captures the visible viewport only.
\<close>

fun full_page_capture :: "call \<Rightarrow> bool" where
  "full_page_capture (Screenshot p (Some b)) = b"
| "full_page_capture c = False"

text \<open>
  What the specification says the two logs hold: one entry per console message, as
  \<^verbatim>\<open>[level] text\<close>, and one per page error, in the order of the events.
\<close>

fun console_entries :: "page_event list \<Rightarrow> string list" where
  "console_entries [] = []"
| "console_entries (Console ty tx # evs) = (''['' @ ty @ ''] '' @ tx) # console_entries evs"
| "console_entries (PageError d # evs) = console_entries evs"

fun error_entries :: "page_event list \<Rightarrow> string list" where
  "error_entries [] = []"
| "error_entries (Console ty tx # evs) = error_entries evs"
| "error_entries (PageError d # evs) = d # error_entries evs"

subsection \<open>Reading an environment\<close>

definition returns :: "environment \<Rightarrow> call \<Rightarrow> bool" where
  "returns env c \<longleftrightarrow> raises (respond env c) = None"

text \<open>The session is acquired: the library started, the browser launched, the page opened.\<close>

definition acquired :: "environment \<Rightarrow> bool" where
  "acquired env \<longleftrightarrow>
     returns env SyncPlaywrightEnter \<and> returns env (Launch True) \<and> returns env NewPage"

text \<open>
  Of a list of calls made one after the other until one raises: the calls that are made,
  and the exception that ends the list, if any.
\<close>

fun performed :: "environment \<Rightarrow> call list \<Rightarrow> call list" where
  "performed env [] = []"
| "performed env (c # cs) =
     c # (case raises (respond env c) of Some e \<Rightarrow> [] | None \<Rightarrow> performed env cs)"

fun first_failure :: "environment \<Rightarrow> call list \<Rightarrow> py_exception option" where
  "first_failure env [] = None"
| "first_failure env (c # cs) =
     (case raises (respond env c) of Some e \<Rightarrow> Some e | None \<Rightarrow> first_failure env cs)"

text \<open>The page events delivered during a list of calls.\<close>

definition emitted :: "environment \<Rightarrow> call list \<Rightarrow> page_event list" where
  "emitted env cs = concat (map (\<lambda>c. emits (respond env c)) cs)"

text \<open>What one call leaves in the file system.\<close>

fun saves :: "environment \<Rightarrow> call \<Rightarrow> (string \<rightharpoonup> bytes) \<Rightarrow> (string \<rightharpoonup> bytes)" where
  "saves env (Screenshot p full) files =
     (if raises (respond env (Screenshot p full)) = None then files(p \<mapsto> image env) else files)"
| "saves env c files = files"

text \<open>The calls of the two scripts without a handler, between the two ends of the \<^verbatim>\<open>with\<close> block.\<close>

definition boundary_steps :: "environment \<Rightarrow> call list" where
  "boundary_steps env =
     [Goto (index_url env),
      ScrollIntoViewIfNeeded boundary_dropdown,
      SelectOption boundary_dropdown ''top-to-bottom'',
      ExpectToHaveValue boundary_dropdown ''top-to-bottom'',
      Screenshot verification_png None]"

definition boundary_calls :: "environment \<Rightarrow> call list" where
  "boundary_calls env = [Launch True, NewPage] @ boundary_steps env @ [Close]"

definition clusters_steps :: "environment \<Rightarrow> call list" where
  "clusters_steps env =
     [Goto (index_url env),
      Click start_button,
      WaitForTimeout 3000,
      Click pause_button,
      Screenshot verification_png None]"

definition clusters_calls :: "environment \<Rightarrow> call list" where
  "clusters_calls env = [Launch True, NewPage] @ clusters_steps env @ [Close]"

text \<open>The \<^verbatim>\<open>try\<close> statement of \<^verbatim>\<open>verify_simulation.py\<close> on its own.\<close>

definition guarded :: "environment \<Rightarrow> stmt" where
  "guarded env =
     try_except_finally (try_body env) (\<lambda>e. print (error_line e)) (finally_part env)"

text \<open>
  What the specification says teardown prints for given logs: two labelled sections, each
  listing its entries or saying that none were captured.
\<close>

definition teardown_lines :: "string list \<Rightarrow> string list \<Rightarrow> string list" where
  "teardown_lines clog elog =
     [''\<newline>--- Browser Console Logs ---'']
     @ (if clog = [] then [''No console messages were captured.''] else clog)
     @ [''\<newline>--- Browser Page Errors ---'']
     @ (if elog = [] then [''No page errors were captured.''] else elog)"

subsection \<open>Running a script\<close>

text \<open>
  A script run as a process of its own: a fresh state over the files that are there, the
  \<^verbatim>\<open>if __name__ == "__main__"\<close> call (or, in \<^verbatim>\<open>verify_clusters.py\<close>, the module's
  \<^verbatim>\<open>with\<close> block).
\<close>

definition main_boundary_conditions ::
    "environment \<Rightarrow> (string \<rightharpoonup> bytes) \<Rightarrow> py_exception option \<times> run_state" where
  "main_boundary_conditions env files = run_verification_boundary_conditions env (init files)"

definition main_clusters ::
    "environment \<Rightarrow> (string \<rightharpoonup> bytes) \<Rightarrow> py_exception option \<times> run_state" where
  "main_clusters env files = verify_clusters env (init files)"

definition main_simulation ::
    "environment \<Rightarrow> (string \<rightharpoonup> bytes) \<Rightarrow> py_exception option \<times> run_state" where
  "main_simulation env files = run_verification_simulation env (init files)"

definition calls_of :: "py_exception option \<times> run_state \<Rightarrow> call list" where
  "calls_of r = lib_calls (effects (snd r))"

definition stdout_of :: "py_exception option \<times> run_state \<Rightarrow> string list" where
  "stdout_of r = printed (effects (snd r))"

definition files_of :: "py_exception option \<times> run_state \<Rightarrow> (string \<rightharpoonup> bytes)" where
  "files_of r = fs (snd r)"

definition status_of :: "py_exception option \<times> run_state \<Rightarrow> nat" where
  "status_of r = exit_code (fst r)"

subsection \<open>The page under test\<close>

text \<open>
  Modelled from the spec: the page the scripts open, \<^verbatim>\<open>index.html\<close>, is not among the
  sources. The spec gives it as a contract: it has a status display, and triggering start
  "eventually mutates the status display away from its initial value within the wait
  timeout". A page is modelled by what its status display shows \<open>t\<close> milliseconds after
  the click on start.
\<close>

type_synonym status_display = "nat \<Rightarrow> string"

definition target_page_contract :: "status_display \<Rightarrow> nat \<Rightarrow> bool" where
  "target_page_contract display timeout \<longleftrightarrow>
     list_ex (\<lambda>t. display t \<noteq> display 0) [0..<Suc timeout]"

text \<open>
  Modelled from the spec: the bounded wait of the library's \<^verbatim>\<open>expect\<close>, "a
  poll-until-condition-or-timeout operation". The display is read at \<open>t\<close> and then each
  millisecond for \<open>n\<close> more, until it meets the condition; the result is the value that
  met it, or nothing when the time is up.
\<close>

fun bounded_wait ::
    "status_display \<Rightarrow> (string \<Rightarrow> bool) \<Rightarrow> nat \<Rightarrow> nat \<Rightarrow> string option" where
  "bounded_wait display cond t 0 = (if cond (display t) then Some (display t) else None)"
| "bounded_wait display cond t (Suc n) =
     (if cond (display t) then Some (display t) else bounded_wait display cond (Suc t) n)"

text \<open>
  Modelled from the spec: \<^verbatim>\<open>expect(locator).not_to_have_text(text, timeout=ms)\<close> on the
  status display. It returns when the wait ends with a value; otherwise it "fails with
  \<^verbatim>\<open>AssertionError\<close> carrying the expected vs. observed value".
\<close>

definition not_to_have_text :: "status_display \<Rightarrow> string \<Rightarrow> nat \<Rightarrow> response" where
  "not_to_have_text display txt ms =
     (case bounded_wait display (\<lambda>v. v \<noteq> txt) 0 ms of
        Some v \<Rightarrow> \<lparr>emits = [], raises = None\<rparr>
      | None \<Rightarrow>
          \<lparr>emits = [],
           raises = Some (PyException AssertionError
             (''expected not '' @ txt @ '', observed '' @ display ms))\<rparr>)"

text \<open>
  An environment in which the assertion on \<^verbatim>\<open>#line-count\<close> is answered by the page's
  status display, and every other call as before.
\<close>

fun respond_on_page :: "status_display \<Rightarrow> (call \<Rightarrow> response) \<Rightarrow> call \<Rightarrow> response" where
  "respond_on_page display r (ExpectNotToHaveText l txt (Some ms)) =
     (if l = line_count_display then not_to_have_text display txt ms
      else r (ExpectNotToHaveText l txt (Some ms)))"
| "respond_on_page display r c = r c"

definition on_page :: "status_display \<Rightarrow> environment \<Rightarrow> environment" where
  "on_page display env = env\<lparr>respond := respond_on_page display (respond env)\<rparr>"

subsection \<open>Concrete environments\<close>

definition quiet :: response where
  "quiet = \<lparr>emits = [], raises = None\<rparr>"

definition png :: bytes where
  "png = [137, 80, 78, 71, 13, 10, 26, 10]"

text \<open>A page on which every call returns; it logs while it loads and while it starts.\<close>

fun page_ok_respond :: "call \<Rightarrow> response" where
  "page_ok_respond (Goto u) = \<lparr>emits = [Console ''log'' ''ready''], raises = None\<rparr>"
| "page_ok_respond (Click l) =
     \<lparr>emits = [Console ''warning'' ''slow frame'', PageError ''ReferenceError: x is not defined''],
      raises = None\<rparr>"
| "page_ok_respond c = quiet"

definition page_ok :: environment where
  "page_ok = \<lparr>respond = page_ok_respond, abspath = (\<lambda>p. ''/repo/'' @ p), image = png\<rparr>"

text \<open>There is no \<^verbatim>\<open>index.html\<close> in the working directory: navigation raises.\<close>

fun page_missing_respond :: "call \<Rightarrow> response" where
  "page_missing_respond (Goto u) =
     \<lparr>emits = [], raises = Some (PyException Error ''net::ERR_FILE_NOT_FOUND'')\<rparr>"
| "page_missing_respond c = quiet"

definition page_missing :: environment where
  "page_missing =
     \<lparr>respond = page_missing_respond, abspath = (\<lambda>p. ''/repo/'' @ p), image = png\<rparr>"

text \<open>
  A page that answers as the first one does, but whose post-conditions never come true:
  both assertions raise.
\<close>

fun page_stuck_respond :: "call \<Rightarrow> response" where
  "page_stuck_respond (Goto u) = \<lparr>emits = [Console ''log'' ''ready''], raises = None\<rparr>"
| "page_stuck_respond (Click l) =
     \<lparr>emits = [Console ''warning'' ''slow frame'', PageError ''ReferenceError: x is not defined''],
      raises = None\<rparr>"
| "page_stuck_respond (ExpectNotToHaveText l t ms) =
     \<lparr>emits = [], raises = Some (PyException AssertionError ''expected not 0, got 0'')\<rparr>"
| "page_stuck_respond (ExpectToHaveValue l v) =
     \<lparr>emits = [], raises = Some (PyException AssertionError ''expected top-to-bottom, got none'')\<rparr>"
| "page_stuck_respond c = quiet"

definition page_stuck :: environment where
  "page_stuck =
     \<lparr>respond = page_stuck_respond, abspath = (\<lambda>p. ''/repo/'' @ p), image = png\<rparr>"

text \<open>An empty working directory.\<close>

definition no_files :: "string \<rightharpoonup> bytes" where
  "no_files = Map.empty"

text \<open>The first page again, a frame later: the browser hands back another image.\<close>

definition page_later :: environment where
  "page_later =
     \<lparr>respond = page_ok_respond, abspath = (\<lambda>p. ''/repo/'' @ p), image = png @ [0]\<rparr>"

text \<open>A working directory that holds a screenshot of an earlier run at both paths.\<close>

definition stale_files :: "string \<rightharpoonup> bytes" where
  "stale_files = [verification_png \<mapsto> [0], simulation_png \<mapsto> [0]]"

text \<open>A status display that leaves 0 after 120 milliseconds.\<close>

definition counting_display :: status_display where
  "counting_display t = (if t < 120 then ''0'' else ''1'')"

section \<open>Properties of the model\<close>

subsection \<open>Events and single statements\<close>

lemma deliver_fields [simp]:
  "effects (deliver ev s) = effects s"
  "console_sink (deliver ev s) = console_sink s"
  "pageerror_sink (deliver ev s) = pageerror_sink s"
  "fs (deliver ev s) = fs s"
  by (cases ev; simp)+

lemma dispatch_fields [simp]:
  "effects (dispatch evs s) = effects s"
  "console_sink (dispatch evs s) = console_sink s"
  "pageerror_sink (dispatch evs s) = pageerror_sink s"
  "fs (dispatch evs s) = fs s"
  unfolding dispatch_def by (induction evs arbitrary: s; simp)+

lemma dispatch_console_messages [simp]:
  "console_messages (dispatch evs s) =
     console_messages s @ (if console_sink s then console_entries evs else [])"
  unfolding dispatch_def
proof (induction evs arbitrary: s)
  case Nil
  show ?case by simp
next
  case (Cons ev evs)
  show ?case by (cases ev) (simp_all add: Cons.IH)
qed

lemma dispatch_page_errors [simp]:
  "page_errors (dispatch evs s) =
     page_errors s @ (if pageerror_sink s then error_entries evs else [])"
  unfolding dispatch_def
proof (induction evs arbitrary: s)
  case Nil
  show ?case by simp
next
  case (Cons ev evs)
  show ?case by (cases ev) (simp_all add: Cons.IH)
qed

lemma console_entries_append [simp]:
  "console_entries (xs @ ys) = console_entries xs @ console_entries ys"
  by (induction xs rule: console_entries.induct) simp_all

lemma error_entries_append [simp]:
  "error_entries (xs @ ys) = error_entries xs @ error_entries ys"
  by (induction xs rule: error_entries.induct) simp_all

lemma printed_append [simp]: "printed (xs @ ys) = printed xs @ printed ys"
  by (induction xs rule: printed.induct) simp_all

lemma lib_calls_append [simp]: "lib_calls (xs @ ys) = lib_calls xs @ lib_calls ys"
  by (induction xs rule: lib_calls.induct) simp_all

lemma printed_map [simp]:
  "printed (map Print ts) = ts"
  "printed (map Lib cs) = []"
  by (induction ts, simp_all) (induction cs, simp_all)

lemma lib_calls_map [simp]:
  "lib_calls (map Lib cs) = cs"
  "lib_calls (map Print ts) = []"
  by (induction cs, simp_all) (induction ts, simp_all)

lemma emitted_simps [simp]:
  "emitted env [] = []"
  "emitted env (c # cs) = emits (respond env c) @ emitted env cs"
  "emitted env (cs @ ds) = emitted env cs @ emitted env ds"
  by (simp_all add: emitted_def)

lemma invoke_fst [simp]: "fst (invoke env c s) = raises (respond env c)"
  by (simp add: invoke_def Let_def split: option.splits)

lemma invoke_effects [simp]: "effects (snd (invoke env c s)) = effects s @ [Lib c]"
  by (simp add: invoke_def Let_def split: option.splits call.splits)

lemma invoke_sinks [simp]:
  "console_sink (snd (invoke env c s)) = console_sink s"
  "pageerror_sink (snd (invoke env c s)) = pageerror_sink s"
  by (simp_all add: invoke_def Let_def split: option.splits call.splits)

lemma invoke_console_messages [simp]:
  "console_messages (snd (invoke env c s)) =
     console_messages s @ (if console_sink s then console_entries (emits (respond env c)) else [])"
  by (simp add: invoke_def Let_def split: option.splits call.splits)

lemma invoke_page_errors [simp]:
  "page_errors (snd (invoke env c s)) =
     page_errors s @ (if pageerror_sink s then error_entries (emits (respond env c)) else [])"
  by (simp add: invoke_def Let_def split: option.splits call.splits)

lemma invoke_fs [simp]: "fs (snd (invoke env c s)) = saves env c (fs s)"
  by (cases c) (simp_all add: invoke_def Let_def split: option.splits)

lemma print_fields [simp]:
  "fst (print t s) = None"
  "effects (snd (print t s)) = effects s @ [Print t]"
  "console_messages (snd (print t s)) = console_messages s"
  "page_errors (snd (print t s)) = page_errors s"
  "console_sink (snd (print t s)) = console_sink s"
  "pageerror_sink (snd (print t s)) = pageerror_sink s"
  "fs (snd (print t s)) = fs s"
  by (simp_all add: print_def)

lemma block_prints:
  "block (map print ts) s = (None, s\<lparr>effects := effects s @ map Print ts\<rparr>)"
  by (induction ts arbitrary: s) (simp_all add: print_def)

lemmas beta = case_prod_beta option.case_eq_if

subsection \<open>A list of library calls\<close>

lemma block_append:
  "block (xs @ ys) s =
     (if fst (block xs s) = None then block ys (snd (block xs s)) else block xs s)"
  by (induction xs arbitrary: s) (auto simp add: beta)

lemma calls_fst [simp]: "fst (block (map (invoke env) cs) s) = first_failure env cs"
  by (induction cs arbitrary: s) (auto simp add: beta)

lemma calls_effects [simp]:
  "effects (snd (block (map (invoke env) cs) s)) = effects s @ map Lib (performed env cs)"
  by (induction cs arbitrary: s) (auto simp add: beta)

lemma calls_sinks [simp]:
  "console_sink (snd (block (map (invoke env) cs) s)) = console_sink s"
  "pageerror_sink (snd (block (map (invoke env) cs) s)) = pageerror_sink s"
  by (induction cs arbitrary: s; auto simp add: beta)+

lemma calls_console_messages [simp]:
  "console_messages (snd (block (map (invoke env) cs) s)) =
     console_messages s
     @ (if console_sink s then console_entries (emitted env (performed env cs)) else [])"
  by (induction cs arbitrary: s) (auto simp add: beta)

lemma calls_page_errors [simp]:
  "page_errors (snd (block (map (invoke env) cs) s)) =
     page_errors s
     @ (if pageerror_sink s then error_entries (emitted env (performed env cs)) else [])"
  by (induction cs arbitrary: s) (auto simp add: beta)

lemma calls_fs [simp]:
  "fs (snd (block (map (invoke env) cs) s)) = fold (saves env) (performed env cs) (fs s)"
  by (induction cs arbitrary: s) (auto simp add: beta)

lemma performed_subset: "set (performed env cs) \<subseteq> set cs"
  by (induction cs) (auto split: option.splits)

lemma performed_distinct: "distinct cs \<Longrightarrow> distinct (performed env cs)"
  using performed_subset by (induction cs) (auto split: option.splits)

lemma performed_count: "c \<notin> set cs \<Longrightarrow> count_list (performed env cs) c = 0"
  using performed_subset by (metis count_list_0_iff subsetD)

lemma performed_all:
  "first_failure env cs = None \<Longrightarrow> performed env cs = cs"
  by (induction cs) (auto split: option.splits)


subsection \<open>The scripts as lists of calls\<close>

lemma all_return_iff: "list_all (returns env) cs \<longleftrightarrow> first_failure env cs = None"
  by (induction cs) (auto simp add: returns_def split: option.splits)

lemma try_body_eq:
  "try_body env =
     block (map (invoke env) (try_calls env) @ [print (''Screenshot saved to '' @ simulation_png)])"
  by (simp add: try_body_def try_calls_def)

lemma boundary_eq:
  "run_verification_boundary_conditions env =
     with_sync_playwright env (block (map (invoke env) (boundary_calls env)
        @ [print (''Screenshot saved to '' @ verification_png)]))"
  by (simp add: run_verification_boundary_conditions_def boundary_calls_def boundary_steps_def)

lemma clusters_eq:
  "run_verification_clusters env =
     block (map (invoke env) (clusters_calls env)
        @ [print (''Screenshot saved to '' @ verification_png)])"
  by (simp add: run_verification_clusters_def clusters_calls_def clusters_steps_def)

text \<open>A list of calls and a last print, inside the \<^verbatim>\<open>with\<close> block.\<close>

lemma scripted_fst:
  assumes "returns env SyncPlaywrightEnter"
  shows "fst (with_sync_playwright env (block (map (invoke env) cs @ [print t])) s) =
     (case raises (respond env SyncPlaywrightExit) of
        Some e \<Rightarrow> Some e
      | None \<Rightarrow> first_failure env cs)"
  using assms by (auto simp add: returns_def with_sync_playwright_def block_append beta)

lemma scripted_effects:
  assumes "returns env SyncPlaywrightEnter"
  shows "effects (snd (with_sync_playwright env (block (map (invoke env) cs @ [print t])) s)) =
     effects s @ [Lib SyncPlaywrightEnter] @ map Lib (performed env cs)
     @ (if first_failure env cs = None then [Print t] else [])
     @ [Lib SyncPlaywrightExit]"
  using assms by (auto simp add: returns_def with_sync_playwright_def block_append beta)

lemma scripted_fs:
  assumes "returns env SyncPlaywrightEnter"
  shows "fs (snd (with_sync_playwright env (block (map (invoke env) cs @ [print t])) s)) =
     fold (saves env) (performed env cs) (fs s)"
  using assms by (auto simp add: returns_def with_sync_playwright_def block_append beta)

subsection \<open>The guarded part of \<^verbatim>\<open>verify_simulation.py\<close>\<close>

lemma try_body_fst: "fst (try_body env s) = first_failure env (try_calls env)"
  by (simp add: try_body_eq block_append beta)

lemma try_body_effects:
  "effects (snd (try_body env s)) =
     effects s @ map Lib (performed env (try_calls env))
     @ (if first_failure env (try_calls env) = None
        then [Print (''Screenshot saved to '' @ simulation_png)] else [])"
  by (simp add: try_body_eq block_append beta)

lemma try_body_sinks:
  "console_sink (snd (try_body env s)) = console_sink s"
  "pageerror_sink (snd (try_body env s)) = pageerror_sink s"
  by (simp_all add: try_body_eq block_append beta)

lemma try_body_console_messages:
  "console_messages (snd (try_body env s)) =
     console_messages s @ (if console_sink s
       then console_entries (emitted env (performed env (try_calls env))) else [])"
  by (simp add: try_body_eq block_append beta)

lemma try_body_page_errors:
  "page_errors (snd (try_body env s)) =
     page_errors s @ (if pageerror_sink s
       then error_entries (emitted env (performed env (try_calls env))) else [])"
  by (simp add: try_body_eq block_append beta)

lemma try_body_fs:
  "fs (snd (try_body env s)) = fold (saves env) (performed env (try_calls env)) (fs s)"
  by (simp add: try_body_eq block_append beta)

lemmas try_body_simps = try_body_fst try_body_effects try_body_sinks
  try_body_console_messages try_body_page_errors try_body_fs

lemma print_console_logs_eq:
  "print_console_logs s = (None, s\<lparr>effects := effects s @ map Print
     (section_lines ''\<newline>--- Browser Console Logs ---''
        ''No console messages were captured.'' (console_messages s))\<rparr>)"
  by (simp add: print_console_logs_def block_prints)

lemma print_page_errors_eq:
  "print_page_errors s = (None, s\<lparr>effects := effects s @ map Print
     (section_lines ''\<newline>--- Browser Page Errors ---''
        ''No page errors were captured.'' (page_errors s))\<rparr>)"
  by (simp add: print_page_errors_def block_prints)

lemma section_lines_eq:
  "section_lines ''\<newline>--- Browser Console Logs ---''
       ''No console messages were captured.'' clog
   @ section_lines ''\<newline>--- Browser Page Errors ---''
       ''No page errors were captured.'' elog = teardown_lines clog elog"
  by (simp add: section_lines_def teardown_lines_def)

lemmas guarded_defs = guarded_def try_except_finally_def finally_part_def
  print_console_logs_eq print_page_errors_eq beta Let_def try_body_simps

lemma guarded_fst: "fst (guarded env s) = raises (respond env Close)"
  by (simp add: guarded_defs)

lemma guarded_effects:
  "effects (snd (guarded env s)) =
     effects s @ map Lib (performed env (try_calls env))
     @ [Print (case first_failure env (try_calls env) of
                 None \<Rightarrow> ''Screenshot saved to '' @ simulation_png
               | Some e \<Rightarrow> error_line e)]
     @ map Print (teardown_lines
          (console_messages s @ (if console_sink s
             then console_entries (emitted env (performed env (try_calls env))) else []))
          (page_errors s @ (if pageerror_sink s
             then error_entries (emitted env (performed env (try_calls env))) else [])))
     @ [Lib Close]"
  by (auto simp add: guarded_defs section_lines_eq [symmetric])

lemma guarded_sinks:
  "console_sink (snd (guarded env s)) = console_sink s"
  "pageerror_sink (snd (guarded env s)) = pageerror_sink s"
  by (auto simp add: guarded_defs)

lemma guarded_logs:
  "console_messages (snd (guarded env s)) =
     console_messages s @ (if console_sink s
       then console_entries (emitted env (performed env (try_calls env) @ [Close])) else [])"
  "page_errors (snd (guarded env s)) =
     page_errors s @ (if pageerror_sink s
       then error_entries (emitted env (performed env (try_calls env) @ [Close])) else [])"
  by (auto simp add: guarded_defs)

lemma guarded_fs:
  "fs (snd (guarded env s)) = fold (saves env) (performed env (try_calls env)) (fs s)"
  by (auto simp add: guarded_defs)

lemmas guarded_simps = guarded_fst guarded_effects guarded_sinks guarded_logs guarded_fs

subsection \<open>A whole run of \<^verbatim>\<open>verify_simulation.py\<close>\<close>

lemma sim_unfold:
  "main_simulation env files =
     with_sync_playwright env (block [
       invoke env (Launch True),
       invoke env NewPage,
       new_logs,
       page_on ''console'',
       page_on ''pageerror'',
       guarded env]) (init files)"
  by (simp add: main_simulation_def run_verification_simulation_def guarded_def)

lemmas sim_defs = acquired_def returns_def sim_unfold with_sync_playwright_def beta
  guarded_simps page_on_def new_logs_def init_def

lemma sim_effects:
  assumes "acquired env"
  shows "effects (snd (main_simulation env files)) =
     [Lib SyncPlaywrightEnter, Lib (Launch True), Lib NewPage, On ''console'', On ''pageerror'']
     @ map Lib (performed env (try_calls env))
     @ [Print (case first_failure env (try_calls env) of
                 None \<Rightarrow> ''Screenshot saved to '' @ simulation_png
               | Some e \<Rightarrow> error_line e)]
     @ map Print (teardown_lines
          (console_entries (emitted env (performed env (try_calls env))))
          (error_entries (emitted env (performed env (try_calls env)))))
     @ [Lib Close, Lib SyncPlaywrightExit]"
  using assms by (simp add: sim_defs)

lemma sim_fst:
  assumes "acquired env"
  shows "fst (main_simulation env files) =
     (case raises (respond env SyncPlaywrightExit) of
        Some e \<Rightarrow> Some e
      | None \<Rightarrow> raises (respond env Close))"
  using assms by (simp add: sim_defs)

lemma sim_console_messages:
  assumes "acquired env"
  shows "console_messages (snd (main_simulation env files)) =
     console_entries (emitted env (performed env (try_calls env) @ [Close, SyncPlaywrightExit]))"
  using assms by (simp add: sim_defs)

lemma sim_page_errors:
  assumes "acquired env"
  shows "page_errors (snd (main_simulation env files)) =
     error_entries (emitted env (performed env (try_calls env) @ [Close, SyncPlaywrightExit]))"
  using assms by (simp add: sim_defs)

lemma sim_fs:
  assumes "acquired env"
  shows "fs (snd (main_simulation env files)) =
     fold (saves env) (performed env (try_calls env)) files"
  using assms by (simp add: sim_defs)

text \<open>Without a session no handler is registered and nothing is logged.\<close>

lemma sim_not_acquired:
  assumes "\<not> acquired env"
  shows "console_messages (snd (main_simulation env files)) = []"
    and "page_errors (snd (main_simulation env files)) = []"
    and "after_registration (effects (snd (main_simulation env files))) = []"
  using assms by (auto simp add: sim_defs)

subsection \<open>Whole runs of the two other scripts\<close>

lemma boundary_unfold:
  "main_boundary_conditions env files =
     with_sync_playwright env (block (map (invoke env) (boundary_calls env)
        @ [print (''Screenshot saved to '' @ verification_png)])) (init files)"
  by (simp add: main_boundary_conditions_def boundary_eq)

lemma clusters_unfold:
  "main_clusters env files =
     with_sync_playwright env (block (map (invoke env) (clusters_calls env)
        @ [print (''Screenshot saved to '' @ verification_png)])) (init files)"
  by (simp add: main_clusters_def verify_clusters_def clusters_eq)

lemma acquired_enter: "acquired env \<Longrightarrow> returns env SyncPlaywrightEnter"
  by (simp add: acquired_def)

lemma try_calls_no_teardown:
  "Close \<notin> set (try_calls env)" "SyncPlaywrightExit \<notin> set (try_calls env)"
  "SyncPlaywrightEnter \<notin> set (try_calls env)" "Launch True \<notin> set (try_calls env)"
  "NewPage \<notin> set (try_calls env)" "distinct (try_calls env)"
  by (simp_all add: try_calls_def heading_def start_button_def line_count_display_def)

lemma boundary_effects:
  assumes "acquired env"
  shows "effects (snd (main_boundary_conditions env files)) =
     [Lib SyncPlaywrightEnter, Lib (Launch True), Lib NewPage]
     @ map Lib (performed env (boundary_steps env @ [Close]))
     @ (if first_failure env (boundary_steps env @ [Close]) = None
        then [Print (''Screenshot saved to '' @ verification_png)] else [])
     @ [Lib SyncPlaywrightExit]"
  unfolding boundary_unfold scripted_effects [OF acquired_enter [OF assms]]
  using assms by (simp add: boundary_calls_def acquired_def returns_def init_def)

lemma boundary_fst:
  assumes "acquired env"
  shows "fst (main_boundary_conditions env files) =
     (case raises (respond env SyncPlaywrightExit) of
        Some e \<Rightarrow> Some e
      | None \<Rightarrow> first_failure env (boundary_steps env @ [Close]))"
  unfolding boundary_unfold scripted_fst [OF acquired_enter [OF assms]]
  using assms by (simp add: boundary_calls_def acquired_def returns_def split: option.splits)

lemma boundary_fs:
  assumes "acquired env"
  shows "fs (snd (main_boundary_conditions env files)) =
     fold (saves env) (performed env (boundary_steps env @ [Close])) files"
  unfolding boundary_unfold scripted_fs [OF acquired_enter [OF assms]]
  using assms by (simp add: boundary_calls_def acquired_def returns_def init_def)

lemma clusters_effects:
  assumes "acquired env"
  shows "effects (snd (main_clusters env files)) =
     [Lib SyncPlaywrightEnter, Lib (Launch True), Lib NewPage]
     @ map Lib (performed env (clusters_steps env @ [Close]))
     @ (if first_failure env (clusters_steps env @ [Close]) = None
        then [Print (''Screenshot saved to '' @ verification_png)] else [])
     @ [Lib SyncPlaywrightExit]"
  unfolding clusters_unfold scripted_effects [OF acquired_enter [OF assms]]
  using assms by (simp add: clusters_calls_def acquired_def returns_def init_def)

lemma clusters_fst:
  assumes "acquired env"
  shows "fst (main_clusters env files) =
     (case raises (respond env SyncPlaywrightExit) of
        Some e \<Rightarrow> Some e
      | None \<Rightarrow> first_failure env (clusters_steps env @ [Close]))"
  unfolding clusters_unfold scripted_fst [OF acquired_enter [OF assms]]
  using assms by (simp add: clusters_calls_def acquired_def returns_def split: option.splits)

lemma steps_then_close:
  "first_failure env (cs @ [Close]) =
     (case first_failure env cs of Some e \<Rightarrow> Some e | None \<Rightarrow> raises (respond env Close))"
  "performed env (cs @ [Close]) =
     performed env cs @ (if first_failure env cs = None then [Close] else [])"
  by (induction cs; auto split: option.splits)+

subsection \<open>What a run called, printed and saved\<close>

lemma sim_calls:
  assumes "acquired env"
  shows "calls_of (main_simulation env files) =
      [SyncPlaywrightEnter, Launch True, NewPage] @ performed env (try_calls env)
      @ [Close, SyncPlaywrightExit]"
  using assms by (simp add: calls_of_def sim_effects)

lemma sim_stdout:
  assumes "acquired env"
  shows "stdout_of (main_simulation env files) =
      (case first_failure env (try_calls env) of
         None \<Rightarrow> ''Screenshot saved to '' @ simulation_png
       | Some e \<Rightarrow> error_line e)
      # teardown_lines
          (console_entries (emitted env (performed env (try_calls env))))
          (error_entries (emitted env (performed env (try_calls env))))"
  using assms by (simp add: stdout_of_def sim_effects)

lemma boundary_calls_of:
  assumes "acquired env"
  shows "calls_of (main_boundary_conditions env files) =
      [SyncPlaywrightEnter, Launch True, NewPage] @ performed env (boundary_steps env)
      @ (if first_failure env (boundary_steps env) = None then [Close] else [])
      @ [SyncPlaywrightExit]"
  using assms by (simp add: calls_of_def boundary_effects steps_then_close)

lemma boundary_stdout:
  assumes "acquired env"
  shows "stdout_of (main_boundary_conditions env files) =
      (if first_failure env (boundary_steps env @ [Close]) = None
       then [''Screenshot saved to '' @ verification_png] else [])"
  using assms by (simp add: stdout_of_def boundary_effects)

lemma clusters_calls_of:
  assumes "acquired env"
  shows "calls_of (main_clusters env files) =
      [SyncPlaywrightEnter, Launch True, NewPage] @ performed env (clusters_steps env)
      @ (if first_failure env (clusters_steps env) = None then [Close] else [])
      @ [SyncPlaywrightExit]"
  using assms by (simp add: calls_of_def clusters_effects steps_then_close)

lemma clusters_stdout:
  assumes "acquired env"
  shows "stdout_of (main_clusters env files) =
      (if first_failure env (clusters_steps env @ [Close]) = None
       then [''Screenshot saved to '' @ verification_png] else [])"
  using assms by (simp add: stdout_of_def clusters_effects)

lemma after_registration_sim:
  assumes "acquired env"
  shows "after_registration (effects (snd (main_simulation env files))) =
      performed env (try_calls env) @ [Close, SyncPlaywrightExit]"
  using assms by (simp add: sim_effects)

lemma no_full_page:
  "\<forall>c \<in> set cs. \<not> full_page_capture c \<Longrightarrow> \<not> list_ex full_page_capture (performed env cs)"
  using performed_subset [of env cs] by (auto simp add: list_ex_iff)

lemma sim_capture:
  assumes "first_failure env (butlast (try_calls env)) = None"
  shows "performed env (try_calls env) = try_calls env"
    and "fold (saves env) (performed env (try_calls env)) files =
      (if returns env (Screenshot simulation_png None)
       then files(simulation_png \<mapsto> image env) else files)"
  using assms by (auto simp add: try_calls_def returns_def split: option.splits)

lemma boundary_capture:
  assumes "first_failure env (butlast (boundary_steps env)) = None"
  shows "performed env (boundary_steps env) = boundary_steps env"
    and "fold (saves env) (performed env (boundary_steps env @ [Close])) files =
      (if returns env (Screenshot verification_png None)
       then files(verification_png \<mapsto> image env) else files)"
  using assms by (auto simp add: boundary_steps_def returns_def split: option.splits)

lemma clusters_fn_fst:
  "fst (run_verification_clusters env s) = first_failure env (clusters_calls env)"
  by (simp add: clusters_eq block_append beta)

lemma clusters_fn_calls:
  "lib_calls (effects (snd (run_verification_clusters env s))) =
     lib_calls (effects s) @ performed env (clusters_calls env)"
  by (simp add: clusters_eq block_append beta)

lemma invoke_cong:
  assumes "respond env' c = respond env c" and "image env' = image env"
  shows "invoke env' c = invoke env c"
  by (rule ext) (simp add: invoke_def assms Let_def split: option.splits call.splits)

subsection \<open>The concrete environments\<close>

lemma page_ok_acquired: "acquired page_ok"
  by (simp add: acquired_def returns_def page_ok_def quiet_def)

lemma page_missing_acquired: "acquired page_missing"
  by (simp add: acquired_def returns_def page_missing_def quiet_def)

lemma page_stuck_acquired: "acquired page_stuck"
  by (simp add: acquired_def returns_def page_stuck_def quiet_def)

subsection \<open>The bounded wait\<close>

lemma bounded_wait_finds:
  assumes "\<exists>k \<le> n. cond (display (t + k))"
  shows "\<exists>v. bounded_wait display cond t n = Some v \<and> cond v"
  using assms
proof (induction n arbitrary: t)
  case 0
  then show ?case by simp
next
  case (Suc n)
  show ?case
  proof (cases "cond (display t)")
    case True
    then show ?thesis by simp
  next
    case False
    from Suc.prems obtain k where k: "k \<le> Suc n" "cond (display (t + k))"
      by blast
    with False obtain j where j: "k = Suc j"
      by (cases k) auto
    with k have "\<exists>i \<le> n. cond (display (Suc t + i))"
      by auto
    then have "\<exists>v. bounded_wait display cond (Suc t) n = Some v \<and> cond v"
      by (rule Suc.IH)
    with False show ?thesis by simp
  qed
qed

lemma on_page_other:
  "respond (on_page display env) (Goto u) = respond env (Goto u)"
  "respond (on_page display env) (ExpectToBeVisible l) = respond env (ExpectToBeVisible l)"
  "respond (on_page display env) (Click l) = respond env (Click l)"
  "respond (on_page display env) SyncPlaywrightEnter = respond env SyncPlaywrightEnter"
  "respond (on_page display env) (Launch b) = respond env (Launch b)"
  "respond (on_page display env) NewPage = respond env NewPage"
  "respond (on_page display env) (Screenshot p f) = respond env (Screenshot p f)"
  "abspath (on_page display env) = abspath env"
  by (simp_all add: on_page_def)

lemma on_page_acquired: "acquired (on_page display env) = acquired env"
  by (simp add: acquired_def returns_def on_page_other)

section \<open>The claims\<close>

text \<open>
  C1. The claim: on every exit path of a run, also when navigation, an interaction, an
  assertion or the capture raises, the browser is closed, exactly once. As stated it fails
  for \<^verbatim>\<open>verify_boundary_conditions.py\<close>, which has no \<^verbatim>\<open>finally\<close>. What holds: once the
  session is acquired, \<^verbatim>\<open>verify_simulation.py\<close> calls \<^verbatim>\<open>browser.close()\<close> exactly once on
  every path; \<^verbatim>\<open>verify_boundary_conditions.py\<close> calls it once when every step before it
  returns and not at all when one raises; both leave the \<^verbatim>\<open>with sync_playwright()\<close> block
  exactly once.
\<close>

theorem browser_close_count:
  assumes "acquired env"
  shows "count_list (calls_of (main_simulation env files)) Close = 1
       \<and> count_list (calls_of (main_simulation env files)) SyncPlaywrightExit = 1
       \<and> count_list (calls_of (main_boundary_conditions env files)) Close =
           (if first_failure env (boundary_steps env) = None then 1 else 0)
       \<and> count_list (calls_of (main_boundary_conditions env files)) SyncPlaywrightExit = 1"
proof -
  have b: "Close \<notin> set (boundary_steps env)" "SyncPlaywrightExit \<notin> set (boundary_steps env)"
    by (simp_all add: boundary_steps_def)
  show ?thesis
    by (simp add: sim_calls [OF assms] boundary_calls_of [OF assms] performed_count
        try_calls_no_teardown b)
qed

text \<open>The theorem at the page whose assertions raise.\<close>

theorem browser_close_count_witness:
  "acquired page_stuck
   \<and> count_list (calls_of (main_simulation page_stuck no_files)) Close = 1
   \<and> count_list (calls_of (main_simulation page_stuck no_files)) SyncPlaywrightExit = 1
   \<and> count_list (calls_of (main_boundary_conditions page_stuck no_files)) Close = 0
   \<and> count_list (calls_of (main_boundary_conditions page_stuck no_files)) SyncPlaywrightExit = 1"
proof -
  have f: "first_failure page_stuck (boundary_steps page_stuck) \<noteq> None"
    by (simp add: boundary_steps_def page_stuck_def quiet_def)
  show ?thesis
    using page_stuck_acquired f browser_close_count [OF page_stuck_acquired, of no_files]
    by simp
qed

text \<open>
  With no \<^verbatim>\<open>index.html\<close> to open, \<^verbatim>\<open>verify_boundary_conditions.py\<close> launches the browser
  and never calls \<^verbatim>\<open>browser.close()\<close>.
\<close>

theorem boundary_close_skipped:
  "count_list (calls_of (main_boundary_conditions page_missing no_files)) (Launch True) = 1
   \<and> count_list (calls_of (main_boundary_conditions page_missing no_files)) Close = 0"
  unfolding boundary_calls_of [OF page_missing_acquired]
  by (simp add: boundary_steps_def page_missing_def quiet_def)

text \<open>
  C2. The claim: every failure after the session is acquired is caught at the top of the
  run, its message is printed to standard output, no step is retried, and the process
  exits with status 0. As stated it fails for \<^verbatim>\<open>verify_clusters.py\<close>, which has no handler.
  What holds: in \<^verbatim>\<open>verify_simulation.py\<close>, when closing the browser and leaving the
  \<^verbatim>\<open>with\<close> block return, the run ends without an exception and with status 0, its first
  line of output is the error line with the message of the first failure (or the
  confirmation line when no step fails), the two log sections follow, and no call is made
  twice; in \<^verbatim>\<open>verify_clusters.py\<close> the first failure leaves the script uncaught: the
  status is 1, nothing is printed, and no call is made twice.
\<close>

theorem failure_reporting:
  assumes "acquired env" and "returns env Close" and "returns env SyncPlaywrightExit"
  shows "fst (main_simulation env files) = None
       \<and> status_of (main_simulation env files) = 0
       \<and> stdout_of (main_simulation env files) =
           (case first_failure env (try_calls env) of
              None \<Rightarrow> ''Screenshot saved to '' @ simulation_png
            | Some e \<Rightarrow>
                ''\<newline>An error occurred during Playwright execution: '' @ str_exc e)
           # teardown_lines
               (console_entries (emitted env (performed env (try_calls env))))
               (error_entries (emitted env (performed env (try_calls env))))
       \<and> distinct (calls_of (main_simulation env files))
       \<and> (\<forall>e. first_failure env (clusters_steps env) = Some e \<longrightarrow>
             fst (main_clusters env files) = Some e
           \<and> status_of (main_clusters env files) = 1
           \<and> stdout_of (main_clusters env files) = []
           \<and> distinct (calls_of (main_clusters env files)))"
proof -
  have out: "fst (main_simulation env files) = None"
    using assms by (simp add: sim_fst returns_def)
  have d: "distinct (calls_of (main_simulation env files))"
    using performed_subset [of env "try_calls env"] try_calls_no_teardown [of env]
    by (auto simp add: sim_calls [OF assms(1)] performed_distinct)
  have cl: "fst (main_clusters env files) = Some e
       \<and> status_of (main_clusters env files) = 1
       \<and> stdout_of (main_clusters env files) = []
       \<and> distinct (calls_of (main_clusters env files))"
    if f: "first_failure env (clusters_steps env) = Some e" for e
  proof -
    have dc: "distinct (clusters_steps env)"
      by (simp add: clusters_steps_def start_button_def pause_button_def)
    have n: "SyncPlaywrightEnter \<notin> set (clusters_steps env)"
      "Launch True \<notin> set (clusters_steps env)" "NewPage \<notin> set (clusters_steps env)"
      "SyncPlaywrightExit \<notin> set (clusters_steps env)"
      by (simp_all add: clusters_steps_def)
    have r: "fst (main_clusters env files) = Some e"
      using assms f by (simp add: clusters_fst steps_then_close returns_def)
    have "distinct (calls_of (main_clusters env files))"
      using performed_subset [of env "clusters_steps env"] n f
      by (auto simp add: calls_of_def clusters_effects [OF assms(1)] steps_then_close
          performed_distinct dc)
    then show ?thesis
      using r f assms(1) by (simp add: status_of_def clusters_stdout steps_then_close)
  qed
  show ?thesis
    using out d cl
    by (simp add: status_of_def sim_stdout [OF assms(1)] error_line_def split: option.splits)
qed

text \<open>The theorem at the page that is missing.\<close>

theorem failure_reporting_witness:
  "acquired page_missing \<and> returns page_missing Close
   \<and> returns page_missing SyncPlaywrightExit
   \<and> status_of (main_simulation page_missing no_files) = 0
   \<and> stdout_of (main_simulation page_missing no_files) =
       [''\<newline>An error occurred during Playwright execution: net::ERR_FILE_NOT_FOUND'',
        ''\<newline>--- Browser Console Logs ---'', ''No console messages were captured.'',
        ''\<newline>--- Browser Page Errors ---'', ''No page errors were captured.'']
   \<and> status_of (main_clusters page_missing no_files) = 1
   \<and> stdout_of (main_clusters page_missing no_files) = []"
proof -
  have c: "returns page_missing Close" and x: "returns page_missing SyncPlaywrightExit"
    by (simp_all add: returns_def page_missing_def quiet_def)
  have f: "first_failure page_missing (try_calls page_missing) =
      Some (PyException Error ''net::ERR_FILE_NOT_FOUND'')"
    by (simp add: try_calls_def page_missing_def quiet_def)
  have e: "emitted page_missing (performed page_missing (try_calls page_missing)) = []"
    by (simp add: try_calls_def page_missing_def quiet_def)
  have g: "first_failure page_missing (clusters_steps page_missing) =
      Some (PyException Error ''net::ERR_FILE_NOT_FOUND'')"
    by (simp add: clusters_steps_def page_missing_def quiet_def)
  show ?thesis
    using failure_reporting [OF page_missing_acquired c x, of no_files]
    by (simp add: page_missing_acquired c x f e g teardown_lines_def)
qed

text \<open>
  With no \<^verbatim>\<open>index.html\<close> to open, \<^verbatim>\<open>verify_clusters.py\<close> ends with the navigation error
  uncaught, status 1 and nothing on standard output.
\<close>

theorem clusters_failure_uncaught:
  "fst (main_clusters page_missing no_files) =
     Some (PyException Error ''net::ERR_FILE_NOT_FOUND'')
   \<and> status_of (main_clusters page_missing no_files) = 1
   \<and> stdout_of (main_clusters page_missing no_files) = []"
  unfolding status_of_def clusters_fst [OF page_missing_acquired]
    clusters_stdout [OF page_missing_acquired]
  by (simp add: clusters_steps_def page_missing_def quiet_def)

text \<open>
  C3. In \<^verbatim>\<open>verify_simulation.py\<close> both handlers are registered before navigation begins:
  the first six effects of a run with a session are the three acquisition calls, the two
  registrations and \<^verbatim>\<open>page.goto\<close>. At the end of every run the console log holds one
  entry \<^verbatim>\<open>[level] text\<close> for each console message delivered after the registration, in
  the order of delivery, and the error log one entry for each page error; when the page
  is silent before navigation, that is every event of the run.
\<close>

theorem diagnostic_sinks:
  "console_messages (snd (main_simulation env files)) =
     console_entries (emitted env (after_registration (effects (snd (main_simulation env files)))))
   \<and> page_errors (snd (main_simulation env files)) =
     error_entries (emitted env (after_registration (effects (snd (main_simulation env files)))))
   \<and> (acquired env \<longrightarrow>
        take 6 (effects (snd (main_simulation env files))) =
          [Lib SyncPlaywrightEnter, Lib (Launch True), Lib NewPage,
           On ''console'', On ''pageerror'', Lib (Goto (index_url env))]
      \<and> after_registration (effects (snd (main_simulation env files))) =
          performed env (try_calls env) @ [Close, SyncPlaywrightExit]
      \<and> (emitted env [SyncPlaywrightEnter, Launch True, NewPage] = [] \<longrightarrow>
           console_messages (snd (main_simulation env files)) =
             console_entries (emitted env (calls_of (main_simulation env files)))
         \<and> page_errors (snd (main_simulation env files)) =
             error_entries (emitted env (calls_of (main_simulation env files)))))"
proof (cases "acquired env")
  case True
  have t: "take 6 (effects (snd (main_simulation env files))) =
          [Lib SyncPlaywrightEnter, Lib (Launch True), Lib NewPage,
           On ''console'', On ''pageerror'', Lib (Goto (index_url env))]"
    by (simp add: sim_effects [OF True] try_calls_def)
  have q: "emitted env (calls_of (main_simulation env files)) =
      emitted env (performed env (try_calls env) @ [Close, SyncPlaywrightExit])"
    if "emitted env [SyncPlaywrightEnter, Launch True, NewPage] = []"
    using that by (simp add: sim_calls [OF True])
  show ?thesis
    using True t q
    by (simp add: after_registration_sim sim_console_messages sim_page_errors)
next
  case False
  then show ?thesis
    by (simp add: sim_not_acquired)
qed

text \<open>The theorem at the page that logs twice and throws once.\<close>

theorem diagnostic_sinks_witness:
  "acquired page_ok \<and> emitted page_ok [SyncPlaywrightEnter, Launch True, NewPage] = []
   \<and> console_messages (snd (main_simulation page_ok no_files)) =
       [''[log] ready'', ''[warning] slow frame'']
   \<and> page_errors (snd (main_simulation page_ok no_files)) =
       [''ReferenceError: x is not defined'']
   \<and> take 6 (effects (snd (main_simulation page_ok no_files))) =
       [Lib SyncPlaywrightEnter, Lib (Launch True), Lib NewPage,
        On ''console'', On ''pageerror'', Lib (Goto ''file:///repo/index.html'')]"
proof -
  have s: "emitted page_ok [SyncPlaywrightEnter, Launch True, NewPage] = []"
    by (simp add: page_ok_def quiet_def)
  have p: "performed page_ok (try_calls page_ok) = try_calls page_ok"
    by (simp add: try_calls_def page_ok_def quiet_def)
  have e: "emitted page_ok (try_calls page_ok @ [Close, SyncPlaywrightExit]) =
      [Console ''log'' ''ready'', Console ''warning'' ''slow frame'',
       PageError ''ReferenceError: x is not defined'']"
    by (simp add: try_calls_def page_ok_def quiet_def)
  have u: "index_url page_ok = ''file:///repo/index.html''"
    by (simp add: index_url_def page_ok_def)
  have d: "console_messages (snd (main_simulation page_ok no_files)) =
        console_entries (emitted page_ok
          (after_registration (effects (snd (main_simulation page_ok no_files)))))"
    and r: "page_errors (snd (main_simulation page_ok no_files)) =
        error_entries (emitted page_ok
          (after_registration (effects (snd (main_simulation page_ok no_files)))))"
    and t: "take 6 (effects (snd (main_simulation page_ok no_files))) =
          [Lib SyncPlaywrightEnter, Lib (Launch True), Lib NewPage,
           On ''console'', On ''pageerror'', Lib (Goto (index_url page_ok))]"
    and a: "after_registration (effects (snd (main_simulation page_ok no_files))) =
          performed page_ok (try_calls page_ok) @ [Close, SyncPlaywrightExit]"
    using diagnostic_sinks [of page_ok no_files] page_ok_acquired by simp_all
  show ?thesis
    unfolding d r t a p e u using page_ok_acquired s by simp
qed

text \<open>
  C4. In \<^verbatim>\<open>verify_simulation.py\<close>, whatever the steps between navigation and capture did,
  the effects of a run with a session end with the two labelled sections (the console
  log accumulated during the calls made so far, or the line that none was captured; then
  the error log under the same rule), then \<^verbatim>\<open>browser.close()\<close>, then the exit of the
  \<^verbatim>\<open>with\<close> block; the browser is not closed before the sections are printed.
\<close>

theorem teardown_output:
  assumes "acquired env"
  shows "\<exists>pre. effects (snd (main_simulation env files)) =
           pre
           @ map Print (teardown_lines
               (console_entries (emitted env (performed env (try_calls env))))
               (error_entries (emitted env (performed env (try_calls env)))))
           @ [Lib Close, Lib SyncPlaywrightExit]
         \<and> lib_calls pre = [SyncPlaywrightEnter, Launch True, NewPage] @ performed env (try_calls env)
         \<and> Close \<notin> set (lib_calls pre)"
proof -
  let ?pre = "[Lib SyncPlaywrightEnter, Lib (Launch True), Lib NewPage,
       On ''console'', On ''pageerror'']
     @ map Lib (performed env (try_calls env))
     @ [Print (case first_failure env (try_calls env) of
                 None \<Rightarrow> ''Screenshot saved to '' @ simulation_png
               | Some e \<Rightarrow> error_line e)]"
  have c: "lib_calls ?pre = [SyncPlaywrightEnter, Launch True, NewPage] @ performed env (try_calls env)"
    by simp
  have n: "Close \<notin> set (lib_calls ?pre)"
    using performed_subset [of env "try_calls env"] try_calls_no_teardown(1) [of env]
    unfolding c by auto
  have e: "effects (snd (main_simulation env files)) =
           ?pre
           @ map Print (teardown_lines
               (console_entries (emitted env (performed env (try_calls env))))
               (error_entries (emitted env (performed env (try_calls env)))))
           @ [Lib Close, Lib SyncPlaywrightExit]"
    by (simp add: sim_effects [OF assms])
  from e c n show ?thesis by blast
qed

text \<open>The theorem at the page that logs, and at the page that is missing.\<close>

theorem teardown_output_witness:
  "acquired page_ok
   \<and> (\<exists>pre. effects (snd (main_simulation page_ok no_files)) =
          pre
          @ map Print [''\<newline>--- Browser Console Logs ---'', ''[log] ready'',
              ''[warning] slow frame'', ''\<newline>--- Browser Page Errors ---'',
              ''ReferenceError: x is not defined'']
          @ [Lib Close, Lib SyncPlaywrightExit]
        \<and> Close \<notin> set (lib_calls pre))
   \<and> acquired page_missing
   \<and> (\<exists>pre. effects (snd (main_simulation page_missing no_files)) =
          pre
          @ map Print [''\<newline>--- Browser Console Logs ---'',
              ''No console messages were captured.'', ''\<newline>--- Browser Page Errors ---'',
              ''No page errors were captured.'']
          @ [Lib Close, Lib SyncPlaywrightExit]
        \<and> Close \<notin> set (lib_calls pre))"
proof -
  have l1: "teardown_lines
      (console_entries (emitted page_ok (performed page_ok (try_calls page_ok))))
      (error_entries (emitted page_ok (performed page_ok (try_calls page_ok)))) =
      [''\<newline>--- Browser Console Logs ---'', ''[log] ready'',
       ''[warning] slow frame'', ''\<newline>--- Browser Page Errors ---'',
       ''ReferenceError: x is not defined'']"
    by (simp add: teardown_lines_def try_calls_def page_ok_def quiet_def)
  have l2: "teardown_lines
      (console_entries (emitted page_missing (performed page_missing (try_calls page_missing))))
      (error_entries (emitted page_missing (performed page_missing (try_calls page_missing)))) =
      [''\<newline>--- Browser Console Logs ---'',
       ''No console messages were captured.'', ''\<newline>--- Browser Page Errors ---'',
       ''No page errors were captured.'']"
    by (simp add: teardown_lines_def try_calls_def page_missing_def quiet_def)
  have w1: "\<exists>pre. effects (snd (main_simulation page_ok no_files)) =
          pre
          @ map Print [''\<newline>--- Browser Console Logs ---'', ''[log] ready'',
              ''[warning] slow frame'', ''\<newline>--- Browser Page Errors ---'',
              ''ReferenceError: x is not defined'']
          @ [Lib Close, Lib SyncPlaywrightExit]
        \<and> Close \<notin> set (lib_calls pre)"
    using teardown_output [OF page_ok_acquired, of no_files] unfolding l1 by blast
  have w2: "\<exists>pre. effects (snd (main_simulation page_missing no_files)) =
          pre
          @ map Print [''\<newline>--- Browser Console Logs ---'',
              ''No console messages were captured.'', ''\<newline>--- Browser Page Errors ---'',
              ''No page errors were captured.'']
          @ [Lib Close, Lib SyncPlaywrightExit]
        \<and> Close \<notin> set (lib_calls pre)"
    using teardown_output [OF page_missing_acquired, of no_files] unfolding l2 by blast
  show ?thesis
    using page_ok_acquired page_missing_acquired w1 w2 by blast
qed

text \<open>
  C5. The claim: a run that reaches the capture step takes a full-page screenshot and
  saves it at a fixed path, over any file that is there. As stated it fails: neither
  script passes \<^verbatim>\<open>full_page\<close>, so the capture is of the visible viewport. What holds: in
  \<^verbatim>\<open>verify_simulation.py\<close> and \<^verbatim>\<open>verify_boundary_conditions.py\<close>, a run with a session in
  which every step before the capture returns calls \<^verbatim>\<open>page.screenshot\<close> exactly once,
  with the script's fixed path and without \<^verbatim>\<open>full_page\<close>; when that call returns, the
  file at the path is the image of this run, whatever was there, and no other file
  changes.
\<close>

theorem capture_artifact:
  assumes "acquired env"
  shows "(first_failure env (butlast (try_calls env)) = None \<longrightarrow>
            count_list (calls_of (main_simulation env files)) (Screenshot simulation_png None) = 1
          \<and> (returns env (Screenshot simulation_png None) \<longrightarrow>
               files_of (main_simulation env files) = files(simulation_png \<mapsto> image env)))
       \<and> (first_failure env (butlast (boundary_steps env)) = None \<longrightarrow>
            count_list (calls_of (main_boundary_conditions env files))
              (Screenshot verification_png None) = 1
          \<and> (returns env (Screenshot verification_png None) \<longrightarrow>
               files_of (main_boundary_conditions env files) =
                 files(verification_png \<mapsto> image env)))
       \<and> \<not> list_ex full_page_capture (calls_of (main_simulation env files))
       \<and> \<not> list_ex full_page_capture (calls_of (main_boundary_conditions env files))"
proof -
  have s1: "count_list (calls_of (main_simulation env files)) (Screenshot simulation_png None) = 1"
    if "first_failure env (butlast (try_calls env)) = None"
    using sim_capture(1) [OF that]
    by (simp add: sim_calls [OF assms]) (simp add: try_calls_def)
  have s2: "files_of (main_simulation env files) = files(simulation_png \<mapsto> image env)"
    if "first_failure env (butlast (try_calls env)) = None"
      and "returns env (Screenshot simulation_png None)"
    using sim_capture(2) [OF that(1)] that(2) by (simp add: files_of_def sim_fs [OF assms])
  have b1: "count_list (calls_of (main_boundary_conditions env files))
              (Screenshot verification_png None) = 1"
    if "first_failure env (butlast (boundary_steps env)) = None"
    using boundary_capture(1) [OF that]
    by (simp add: boundary_calls_of [OF assms]) (simp add: boundary_steps_def)
  have b2: "files_of (main_boundary_conditions env files) =
                 files(verification_png \<mapsto> image env)"
    if "first_failure env (butlast (boundary_steps env)) = None"
      and "returns env (Screenshot verification_png None)"
    using boundary_capture(2) [OF that(1)] that(2)
    by (simp add: files_of_def boundary_fs [OF assms])
  have n1: "\<not> list_ex full_page_capture (performed env (try_calls env))"
    by (rule no_full_page) (simp add: try_calls_def)
  have n2: "\<not> list_ex full_page_capture (performed env (boundary_steps env))"
    by (rule no_full_page) (simp add: boundary_steps_def)
  have s3: "\<not> list_ex full_page_capture (calls_of (main_simulation env files))"
    using n1 by (simp add: sim_calls [OF assms])
  have b3: "\<not> list_ex full_page_capture (calls_of (main_boundary_conditions env files))"
    using n2 by (simp add: boundary_calls_of [OF assms])
  show ?thesis
    using s1 s2 b1 b2 s3 b3 by blast
qed

text \<open>The theorem at the page on which every call returns, over a stale screenshot.\<close>

theorem capture_artifact_witness:
  "acquired page_ok
   \<and> first_failure page_ok (butlast (try_calls page_ok)) = None
   \<and> returns page_ok (Screenshot simulation_png None)
   \<and> first_failure page_ok (butlast (boundary_steps page_ok)) = None
   \<and> returns page_ok (Screenshot verification_png None)
   \<and> stale_files simulation_png = Some [0]
   \<and> stale_files verification_png = Some [0]
   \<and> files_of (main_simulation page_ok stale_files) simulation_png = Some png
   \<and> files_of (main_boundary_conditions page_ok stale_files) verification_png = Some png
   \<and> count_list (calls_of (main_simulation page_ok stale_files))
        (Screenshot simulation_png None) = 1
   \<and> count_list (calls_of (main_boundary_conditions page_ok stale_files))
        (Screenshot verification_png None) = 1"
proof -
  have s: "first_failure page_ok (butlast (try_calls page_ok)) = None"
    by (simp add: try_calls_def page_ok_def quiet_def)
  have b: "first_failure page_ok (butlast (boundary_steps page_ok)) = None"
    by (simp add: boundary_steps_def page_ok_def quiet_def)
  have r: "returns page_ok (Screenshot simulation_png None)"
    "returns page_ok (Screenshot verification_png None)"
    by (simp_all add: returns_def page_ok_def quiet_def)
  have o: "stale_files simulation_png = Some [0]" "stale_files verification_png = Some [0]"
    by (simp_all add: stale_files_def simulation_png_def verification_png_def)
  have i: "image page_ok = png"
    by (simp add: page_ok_def)
  show ?thesis
    using capture_artifact [OF page_ok_acquired, of stale_files]
    by (simp add: page_ok_acquired s b r o i)
qed

text \<open>
  On the page on which every call returns, \<^verbatim>\<open>verify_simulation.py\<close> reaches the capture
  step and makes its one screenshot call without \<^verbatim>\<open>full_page\<close>: no call of the run is a
  full-page capture.
\<close>

theorem viewport_capture:
  "count_list (calls_of (main_simulation page_ok no_files))
     (Screenshot simulation_png None) = 1
   \<and> \<not> list_ex full_page_capture (calls_of (main_simulation page_ok no_files))"
  unfolding sim_calls [OF page_ok_acquired]
  by (simp add: try_calls_def page_ok_def quiet_def)

text \<open>
  C6. Two runs of \<^verbatim>\<open>verify_boundary_conditions.py\<close> in succession, each with a session and
  with every step up to the capture returning, and a browser that hands back non-empty
  images: after the first run the files are the old ones with the first image at the
  fixed path, after the second the old ones with the second image at the same path, so
  the second image has replaced the first entirely; after each run the file is there and
  is not empty.
\<close>

theorem screenshot_idempotent:
  assumes "acquired env1" and "first_failure env1 (boundary_steps env1) = None"
      and "acquired env2" and "first_failure env2 (boundary_steps env2) = None"
      and "image env1 \<noteq> []" and "image env2 \<noteq> []"
  shows "files_of (main_boundary_conditions env1 files) = files(verification_png \<mapsto> image env1)
       \<and> files_of (main_boundary_conditions env2 (files_of (main_boundary_conditions env1 files)))
           = files(verification_png \<mapsto> image env2)
       \<and> (\<exists>b. files_of (main_boundary_conditions env1 files) verification_png = Some b \<and> b \<noteq> [])
       \<and> (\<exists>b. files_of (main_boundary_conditions env2
                  (files_of (main_boundary_conditions env1 files))) verification_png = Some b
              \<and> b \<noteq> [])"
proof -
  have run: "files_of (main_boundary_conditions env fs0) = fs0(verification_png \<mapsto> image env)"
    if "acquired env" and "first_failure env (boundary_steps env) = None" for env fs0
  proof -
    have "first_failure env (butlast (boundary_steps env)) = None"
      and "returns env (Screenshot verification_png None)"
      using that(2) by (auto simp add: boundary_steps_def returns_def split: option.splits)
    then show ?thesis
      using boundary_capture(2) by (simp add: files_of_def boundary_fs [OF that(1)])
  qed
  show ?thesis
    using assms by (simp add: run)
qed

text \<open>The theorem at two runs on the page on which every call returns, a frame apart.\<close>

theorem screenshot_idempotent_witness:
  "acquired page_ok \<and> first_failure page_ok (boundary_steps page_ok) = None
   \<and> acquired page_later \<and> first_failure page_later (boundary_steps page_later) = None
   \<and> image page_ok \<noteq> [] \<and> image page_later \<noteq> []
   \<and> files_of (main_boundary_conditions page_ok stale_files) verification_png = Some png
   \<and> files_of (main_boundary_conditions page_later
        (files_of (main_boundary_conditions page_ok stale_files))) verification_png =
      Some (png @ [0])"
proof -
  have a: "acquired page_later"
    by (simp add: acquired_def returns_def page_later_def quiet_def)
  have f1: "first_failure page_ok (boundary_steps page_ok) = None"
    by (simp add: boundary_steps_def page_ok_def quiet_def)
  have f2: "first_failure page_later (boundary_steps page_later) = None"
    by (simp add: boundary_steps_def page_later_def quiet_def)
  have i1: "image page_ok = png" and i2: "image page_later = png @ [0]"
    by (simp_all add: page_ok_def page_later_def)
  have n1: "image page_ok \<noteq> []" and n2: "image page_later \<noteq> []"
    by (simp_all add: i1 i2 png_def)
  note w = screenshot_idempotent [OF page_ok_acquired f1 a f2 n1 n2, of stale_files]
  from w have e1: "files_of (main_boundary_conditions page_ok stale_files) =
      stale_files(verification_png \<mapsto> image page_ok)"
    by (rule conjunct1)
  from w have e2: "files_of (main_boundary_conditions page_later
        (files_of (main_boundary_conditions page_ok stale_files))) =
      stale_files(verification_png \<mapsto> image page_later)"
    by (rule conjunct2 [THEN conjunct1])
  have v1: "files_of (main_boundary_conditions page_ok stale_files) verification_png =
      Some png"
    by (simp only: e1 fun_upd_same i1)
  have v2: "files_of (main_boundary_conditions page_later
        (files_of (main_boundary_conditions page_ok stale_files))) verification_png =
      Some (png @ [0])"
    by (simp only: e2 fun_upd_same i2)
  show ?thesis
    using page_ok_acquired a f1 f2 n1 n2 v1 v2 by blast
qed

text \<open>
  C7. The claim: a run in which an asserted post-condition never comes true within its
  timeout fails with an \<^verbatim>\<open>AssertionError\<close> that carries the expected and the observed
  value. As stated it fails for \<^verbatim>\<open>verify_simulation.py\<close>, whose handler catches the error.
  What holds, when the assertion raises an \<^verbatim>\<open>AssertionError\<close> with message \<open>m\<close> after
  the steps before it returned: \<^verbatim>\<open>verify_boundary_conditions.py\<close> fails with that very
  error (status 1, nothing printed, no screenshot); \<^verbatim>\<open>verify_simulation.py\<close> catches it,
  prints the error line with \<open>m\<close> first, takes no screenshot and ends without an
  exception, status 0.
\<close>

theorem assertion_failure:
  assumes "acquired env"
  shows "(first_failure env (take 3 (boundary_steps env)) = None
          \<and> raises (respond env (ExpectToHaveValue boundary_dropdown ''top-to-bottom'')) =
              Some (PyException AssertionError m)
          \<and> returns env SyncPlaywrightExit \<longrightarrow>
            fst (main_boundary_conditions env files) = Some (PyException AssertionError m)
          \<and> status_of (main_boundary_conditions env files) = 1
          \<and> stdout_of (main_boundary_conditions env files) = []
          \<and> count_list (calls_of (main_boundary_conditions env files))
               (Screenshot verification_png None) = 0)
       \<and> (first_failure env (take 3 (try_calls env)) = None
          \<and> raises (respond env (ExpectNotToHaveText line_count_display ''0'' (Some 5000))) =
              Some (PyException AssertionError m)
          \<and> returns env Close \<and> returns env SyncPlaywrightExit \<longrightarrow>
            fst (main_simulation env files) = None
          \<and> status_of (main_simulation env files) = 0
          \<and> hd (stdout_of (main_simulation env files)) =
               ''\<newline>An error occurred during Playwright execution: '' @ m
          \<and> count_list (calls_of (main_simulation env files))
               (Screenshot simulation_png None) = 0)"
proof -
  have b: "fst (main_boundary_conditions env files) = Some (PyException AssertionError m)
          \<and> status_of (main_boundary_conditions env files) = 1
          \<and> stdout_of (main_boundary_conditions env files) = []
          \<and> count_list (calls_of (main_boundary_conditions env files))
               (Screenshot verification_png None) = 0"
    if "first_failure env (take 3 (boundary_steps env)) = None"
      and "raises (respond env (ExpectToHaveValue boundary_dropdown ''top-to-bottom'')) =
              Some (PyException AssertionError m)"
      and "returns env SyncPlaywrightExit"
  proof -
    have f: "first_failure env (boundary_steps env) = Some (PyException AssertionError m)"
      and p: "performed env (boundary_steps env) = take 4 (boundary_steps env)"
      using that(1,2) by (auto simp add: boundary_steps_def split: option.splits)
    show ?thesis
      using that(3)
      by (simp add: status_of_def boundary_fst [OF assms] boundary_stdout [OF assms]
          boundary_calls_of [OF assms] steps_then_close f p returns_def)
         (simp add: boundary_steps_def)
  qed
  have s: "fst (main_simulation env files) = None
          \<and> status_of (main_simulation env files) = 0
          \<and> hd (stdout_of (main_simulation env files)) =
               ''\<newline>An error occurred during Playwright execution: '' @ m
          \<and> count_list (calls_of (main_simulation env files))
               (Screenshot simulation_png None) = 0"
    if "first_failure env (take 3 (try_calls env)) = None"
      and "raises (respond env (ExpectNotToHaveText line_count_display ''0'' (Some 5000))) =
              Some (PyException AssertionError m)"
      and "returns env Close" and "returns env SyncPlaywrightExit"
  proof -
    have f: "first_failure env (try_calls env) = Some (PyException AssertionError m)"
      and p: "performed env (try_calls env) = take 4 (try_calls env)"
      using that(1,2) by (auto simp add: try_calls_def split: option.splits)
    show ?thesis
      using that(3,4)
      by (simp add: status_of_def sim_fst [OF assms] sim_stdout [OF assms]
          sim_calls [OF assms] f p returns_def error_line_def)
         (simp add: try_calls_def)
  qed
  show ?thesis
    using b s by blast
qed

text \<open>The theorem at the page whose assertions raise.\<close>

theorem assertion_failure_witness:
  "acquired page_stuck
   \<and> first_failure page_stuck (take 3 (boundary_steps page_stuck)) = None
   \<and> raises (respond page_stuck (ExpectToHaveValue boundary_dropdown ''top-to-bottom'')) =
       Some (PyException AssertionError ''expected top-to-bottom, got none'')
   \<and> first_failure page_stuck (take 3 (try_calls page_stuck)) = None
   \<and> raises (respond page_stuck (ExpectNotToHaveText line_count_display ''0'' (Some 5000))) =
       Some (PyException AssertionError ''expected not 0, got 0'')
   \<and> returns page_stuck Close \<and> returns page_stuck SyncPlaywrightExit
   \<and> fst (main_boundary_conditions page_stuck no_files) =
       Some (PyException AssertionError ''expected top-to-bottom, got none'')
   \<and> status_of (main_boundary_conditions page_stuck no_files) = 1
   \<and> fst (main_simulation page_stuck no_files) = None
   \<and> hd (stdout_of (main_simulation page_stuck no_files)) =
       ''\<newline>An error occurred during Playwright execution: expected not 0, got 0''"
proof -
  have b: "first_failure page_stuck (take 3 (boundary_steps page_stuck)) = None"
    by (simp add: boundary_steps_def page_stuck_def quiet_def)
  have s: "first_failure page_stuck (take 3 (try_calls page_stuck)) = None"
    by (simp add: try_calls_def page_stuck_def quiet_def)
  have v: "raises (respond page_stuck (ExpectToHaveValue boundary_dropdown ''top-to-bottom'')) =
       Some (PyException AssertionError ''expected top-to-bottom, got none'')"
    by (simp add: page_stuck_def)
  have t: "raises (respond page_stuck (ExpectNotToHaveText line_count_display ''0'' (Some 5000))) =
       Some (PyException AssertionError ''expected not 0, got 0'')"
    by (simp add: page_stuck_def)
  have c: "returns page_stuck Close" and x: "returns page_stuck SyncPlaywrightExit"
    by (simp_all add: returns_def page_stuck_def quiet_def)
  have 1: "fst (main_boundary_conditions page_stuck no_files) =
       Some (PyException AssertionError ''expected top-to-bottom, got none'')
     \<and> status_of (main_boundary_conditions page_stuck no_files) = 1"
    using assertion_failure [OF page_stuck_acquired,
        of "''expected top-to-bottom, got none''" no_files] b v x
    by blast
  have 2: "fst (main_simulation page_stuck no_files) = None
     \<and> hd (stdout_of (main_simulation page_stuck no_files)) =
       ''\<newline>An error occurred during Playwright execution: '' @ ''expected not 0, got 0''"
    using assertion_failure [OF page_stuck_acquired, of "''expected not 0, got 0''" no_files]
      s t c x
    by blast
  show ?thesis
    using page_stuck_acquired b s v t c x 1 2 by simp
qed

text \<open>
  On the page whose display never leaves 0, \<^verbatim>\<open>verify_simulation.py\<close> makes the assertion
  call, the call raises an \<^verbatim>\<open>AssertionError\<close>, and the run ends without an exception, with
  status 0.
\<close>

theorem assertion_error_caught:
  "raises (respond page_stuck (ExpectNotToHaveText line_count_display ''0'' (Some 5000))) =
     Some (PyException AssertionError ''expected not 0, got 0'')
   \<and> count_list (calls_of (main_simulation page_stuck no_files))
        (ExpectNotToHaveText line_count_display ''0'' (Some 5000)) = 1
   \<and> fst (main_simulation page_stuck no_files) = None
   \<and> status_of (main_simulation page_stuck no_files) = 0"
  unfolding status_of_def sim_calls [OF page_stuck_acquired] sim_fst [OF page_stuck_acquired]
  by (simp add: try_calls_def page_stuck_def quiet_def heading_def start_button_def
      line_count_display_def)

text \<open>
  C8. In the simulation scenario, on a page that keeps the spec's contract (the status
  display shows 0 at the click on start and leaves its initial value within the wait
  timeout of 5000 ms), the wait of the script, for a text other than 0 and for up to
  5000 ms, ends with a display value other than 0. In \<^verbatim>\<open>verify_simulation.py\<close> the
  assertion on \<^verbatim>\<open>#line-count\<close> returns on such a page; in a run with a session whose
  navigation, heading check and click return, it is made right after the click on
  \<^verbatim>\<open>#start-button\<close>, and the run goes on to take its screenshot.
\<close>

theorem start_changes_display:
  assumes "display 0 = ''0''" and "target_page_contract display 5000"
  shows "(\<exists>v. bounded_wait display (\<lambda>v. v \<noteq> ''0'') 0 5000 = Some v \<and> v \<noteq> ''0'')
       \<and> returns (on_page display env) (ExpectNotToHaveText line_count_display ''0'' (Some 5000))
       \<and> (acquired env \<and> first_failure env (take 3 (try_calls env)) = None \<longrightarrow>
            take 7 (calls_of (main_simulation (on_page display env) files)) =
              [SyncPlaywrightEnter, Launch True, NewPage, Goto (index_url env),
               ExpectToBeVisible heading, Click start_button,
               ExpectNotToHaveText line_count_display ''0'' (Some 5000)]
          \<and> count_list (calls_of (main_simulation (on_page display env) files))
               (Screenshot simulation_png None) = 1)"
proof -
  from assms obtain t where t: "t < Suc 5000" "display t \<noteq> ''0''"
    by (auto simp add: target_page_contract_def list_ex_iff)
  from t(1) have "t \<le> 5000"
    by (simp only: less_Suc_eq_le)
  with t(2) have "\<exists>k \<le> 5000. display (0 + k) \<noteq> ''0''"
    by auto
  then have w: "\<exists>v. bounded_wait display (\<lambda>v. v \<noteq> ''0'') 0 5000 = Some v \<and> v \<noteq> ''0''"
    by (rule bounded_wait_finds)
  then have r: "returns (on_page display env)
      (ExpectNotToHaveText line_count_display ''0'' (Some 5000))"
    by (auto simp add: returns_def on_page_def not_to_have_text_def)
  have c: "take 7 (calls_of (main_simulation (on_page display env) files)) =
              [SyncPlaywrightEnter, Launch True, NewPage, Goto (index_url env),
               ExpectToBeVisible heading, Click start_button,
               ExpectNotToHaveText line_count_display ''0'' (Some 5000)]
          \<and> count_list (calls_of (main_simulation (on_page display env) files))
               (Screenshot simulation_png None) = 1"
    if a: "acquired env" and f: "first_failure env (take 3 (try_calls env)) = None"
  proof -
    have a': "acquired (on_page display env)"
      using a by (simp add: on_page_acquired)
    have u: "index_url (on_page display env) = index_url env"
      by (simp add: index_url_def on_page_other)
    have p: "performed (on_page display env) (try_calls (on_page display env)) =
        try_calls env"
      using f r
      by (auto simp add: try_calls_def u on_page_other returns_def split: option.splits)
    show ?thesis
      by (simp add: sim_calls [OF a'] p) (simp add: try_calls_def)
  qed
  show ?thesis
    using w r c by blast
qed

text \<open>The theorem at the display that leaves 0 after 120 ms.\<close>

theorem start_changes_display_witness:
  "counting_display 0 = ''0'' \<and> target_page_contract counting_display 5000
   \<and> acquired page_ok \<and> first_failure page_ok (take 3 (try_calls page_ok)) = None
   \<and> (\<exists>v. bounded_wait counting_display (\<lambda>v. v \<noteq> ''0'') 0 5000 = Some v \<and> v \<noteq> ''0'')
   \<and> count_list (calls_of (main_simulation (on_page counting_display page_ok) no_files))
        (Screenshot simulation_png None) = 1"
proof -
  have i: "counting_display 0 = ''0''"
    by (simp add: counting_display_def)
  have "counting_display 120 \<noteq> counting_display 0"
    by (simp add: counting_display_def)
  then have t: "target_page_contract counting_display 5000"
    unfolding target_page_contract_def list_ex_iff by (intro bexI [of _ 120]) simp_all
  have f: "first_failure page_ok (take 3 (try_calls page_ok)) = None"
    by (simp add: try_calls_def page_ok_def quiet_def)
  show ?thesis
    using start_changes_display [OF i t, of page_ok no_files] i t page_ok_acquired f
    by blast
qed

text \<open>
  C9. The claim: in the clusters scenario, clicking start, waiting 3000 ms, clicking
  pause and taking the screenshot does not raise, and all three locators of the scenario
  resolve. As stated it fails: the scenario has two locators. What holds: when every
  library call of \<^verbatim>\<open>verify_clusters.py\<close> returns, the script ends without an exception
  after exactly these calls, in this order: acquisition, navigation, click on
  \<^verbatim>\<open>#start-button\<close>, a wait of 3000 ms, click on \<^verbatim>\<open>#pause-button\<close>, the screenshot, close and
  exit; the locators it acts on are \<^verbatim>\<open>#start-button\<close> and \<^verbatim>\<open>#pause-button\<close>, each clicked
  with no timeout argument.
\<close>

theorem clusters_sequence:
  assumes "returns env SyncPlaywrightEnter"
      and "list_all (returns env) (clusters_calls env)"
      and "returns env SyncPlaywrightExit"
  shows "fst (main_clusters env files) = None
       \<and> calls_of (main_clusters env files) =
           [SyncPlaywrightEnter, Launch True, NewPage, Goto (index_url env),
            Click (Locator ''#start-button''), WaitForTimeout 3000,
            Click (Locator ''#pause-button''),
            Screenshot ''jules-scratch/verification/verification.png'' None,
            Close, SyncPlaywrightExit]
       \<and> locators_used (calls_of (main_clusters env files)) =
           [Locator ''#start-button'', Locator ''#pause-button'']"
proof -
  have f: "first_failure env (clusters_calls env) = None"
    using assms(2) by (simp add: all_return_iff)
  have p: "performed env (clusters_calls env) = clusters_calls env"
    using f by (rule performed_all)
  have c: "calls_of (main_clusters env files) =
      [SyncPlaywrightEnter] @ clusters_calls env @ [SyncPlaywrightExit]"
    unfolding calls_of_def clusters_unfold scripted_effects [OF assms(1)]
    by (simp add: f p init_def)
  have r: "fst (main_clusters env files) = None"
    unfolding clusters_unfold scripted_fst [OF assms(1)]
    using assms(3) by (simp add: f returns_def)
  show ?thesis
    using r
    by (simp add: c clusters_calls_def clusters_steps_def start_button_def pause_button_def
        verification_png_def locators_used_def)
qed

text \<open>The theorem at the page on which every call returns.\<close>

theorem clusters_sequence_witness:
  "returns page_ok SyncPlaywrightEnter
   \<and> list_all (returns page_ok) (clusters_calls page_ok)
   \<and> returns page_ok SyncPlaywrightExit
   \<and> fst (main_clusters page_ok no_files) = None
   \<and> calls_of (main_clusters page_ok no_files) =
       [SyncPlaywrightEnter, Launch True, NewPage, Goto ''file:///repo/index.html'',
        Click (Locator ''#start-button''), WaitForTimeout 3000,
        Click (Locator ''#pause-button''),
        Screenshot ''jules-scratch/verification/verification.png'' None,
        Close, SyncPlaywrightExit]"
proof -
  have e: "returns page_ok SyncPlaywrightEnter" and x: "returns page_ok SyncPlaywrightExit"
    by (simp_all add: returns_def page_ok_def quiet_def)
  have a: "list_all (returns page_ok) (clusters_calls page_ok)"
    by (simp add: clusters_calls_def clusters_steps_def returns_def page_ok_def quiet_def)
  have u: "index_url page_ok = ''file:///repo/index.html''"
    by (simp add: index_url_def page_ok_def)
  show ?thesis
    using clusters_sequence [OF e a x, of no_files] by (simp add: e a x u)
qed

text \<open>
  On the page on which every call returns, the locators \<^verbatim>\<open>verify_clusters.py\<close> acts on
  are two, not three.
\<close>

theorem clusters_two_locators:
  "locators_used (calls_of (main_clusters page_ok no_files)) =
     [Locator ''#start-button'', Locator ''#pause-button'']
   \<and> length (locators_used (calls_of (main_clusters page_ok no_files))) \<noteq> 3"
  unfolding clusters_calls_of [OF page_ok_acquired]
  by (simp add: clusters_steps_def page_ok_def quiet_def locators_used_def start_button_def
      pause_button_def)

text \<open>
  C10. \<^verbatim>\<open>run_verification\<close> of \<^verbatim>\<open>verify_clusters.py\<close> checks no post-condition. When each
  of its eight library calls returns (launch, new page, navigation, the two clicks, the
  wait, the screenshot, close), it ends without an exception. No call it makes is an
  \<^verbatim>\<open>expect\<close> assertion. Its result, outcome and state, is the same in two environments
  that answer those eight calls alike (with the same \<^verbatim>\<open>index.html\<close> path and the same
  image), whatever they answer to any other query of the page, the text of the
  line-count display included.
\<close>

theorem clusters_no_postcondition:
  "(list_all (returns env) (clusters_calls env) \<longrightarrow>
      fst (run_verification_clusters env s) = None)
   \<and> \<not> list_ex is_expect (lib_calls (effects (snd (run_verification_clusters env (init files)))))
   \<and> ((\<forall>c \<in> set (clusters_calls env). respond env' c = respond env c)
        \<and> abspath env' ''index.html'' = abspath env ''index.html''
        \<and> image env' = image env \<longrightarrow>
      run_verification_clusters env' s = run_verification_clusters env s)"
proof -
  have a: "fst (run_verification_clusters env s) = None"
    if "list_all (returns env) (clusters_calls env)"
    using that by (simp add: clusters_fn_fst all_return_iff)
  have "\<forall>c \<in> set (clusters_calls env). \<not> is_expect c"
    by (simp add: clusters_calls_def clusters_steps_def)
  then have "\<forall>c \<in> set (performed env (clusters_calls env)). \<not> is_expect c"
    using performed_subset [of env "clusters_calls env"] by blast
  then have b: "\<not> list_ex is_expect
      (lib_calls (effects (snd (run_verification_clusters env (init files)))))"
    by (simp add: clusters_fn_calls init_def list_ex_iff)
  have c: "run_verification_clusters env' s = run_verification_clusters env s"
    if r: "\<forall>c \<in> set (clusters_calls env). respond env' c = respond env c"
      and u: "abspath env' ''index.html'' = abspath env ''index.html''"
      and i: "image env' = image env"
  proof -
    have cs: "clusters_calls env' = clusters_calls env"
      using u by (simp add: clusters_calls_def clusters_steps_def index_url_def)
    have "map (invoke env') (clusters_calls env) = map (invoke env) (clusters_calls env)"
    proof (rule map_cong [OF refl])
      fix c
      assume "c \<in> set (clusters_calls env)"
      with r have "respond env' c = respond env c"
        by blast
      then show "invoke env' c = invoke env c"
        using i by (rule invoke_cong)
    qed
    then show ?thesis
      by (simp only: clusters_eq cs)
  qed
  show ?thesis
    using a b c by blast
qed

text \<open>
  The theorem at two pages that differ in what the line-count display shows: on one the
  assertion about it would pass, on the other it would raise.
\<close>

theorem clusters_no_postcondition_witness:
  "list_all (returns page_ok) (clusters_calls page_ok)
   \<and> list_all (\<lambda>c. respond page_stuck c = respond page_ok c) (clusters_calls page_ok)
   \<and> abspath page_stuck ''index.html'' = abspath page_ok ''index.html''
   \<and> image page_stuck = image page_ok
   \<and> respond page_stuck (ExpectNotToHaveText line_count_display ''0'' (Some 5000)) \<noteq>
       respond page_ok (ExpectNotToHaveText line_count_display ''0'' (Some 5000))
   \<and> fst (run_verification_clusters page_ok (init no_files)) = None
   \<and> run_verification_clusters page_stuck (init no_files) =
       run_verification_clusters page_ok (init no_files)"
proof -
  have a: "list_all (returns page_ok) (clusters_calls page_ok)"
    by (simp add: clusters_calls_def clusters_steps_def returns_def page_ok_def quiet_def)
  have r: "list_all (\<lambda>c. respond page_stuck c = respond page_ok c) (clusters_calls page_ok)"
    by (simp add: clusters_calls_def clusters_steps_def page_ok_def page_stuck_def)
  have p: "abspath page_stuck ''index.html'' = abspath page_ok ''index.html''"
    and i: "image page_stuck = image page_ok"
    by (simp_all add: page_ok_def page_stuck_def)
  have d: "respond page_stuck (ExpectNotToHaveText line_count_display ''0'' (Some 5000)) \<noteq>
       respond page_ok (ExpectNotToHaveText line_count_display ''0'' (Some 5000))"
    by (simp add: page_ok_def page_stuck_def quiet_def)
  have b: "\<forall>c \<in> set (clusters_calls page_ok). respond page_stuck c = respond page_ok c"
    using r by (simp add: list_all_iff)
  show ?thesis
    using clusters_no_postcondition [of page_ok "init no_files" no_files page_stuck]
      a r p i d b
    by blast
qed

end
